theory Spec2Isabelle
  imports Complex_Main
begin

section \<open>Numbers, failures and typed arrays\<close>

text \<open>
  A JavaScript number is modelled as a real. The lengths, counters and indices of the
  program are integers below \<open>2^53\<close>, where doubles are exact; coordinates are only moved
  around by the code modelled here. \<open>undefined\<close>, \<open>NaN\<close> and the infinities are not reals:
  where the source would produce one of them the model stops with \<open>Unmodelled\<close>.
\<close>

type_synonym number = real

datatype failure =
    DeveloperError string
  | RangeError string
  | Unmodelled string

text \<open>
  \<open>Uint16Array\<close> and \<open>Uint32Array\<close>: a fixed number of elements of \<open>bits\<close> bits each. A store
  converts the number as ECMAScript's ToUint16/ToUint32 do (truncate towards zero, then
  reduce modulo \<open>2^bits\<close>), and a store outside the array is ignored, which is what
  \<open>xs[i := v]\<close> does.
\<close>

record TypedArray =
  bits :: nat
  elems :: "nat list"

definition ToUint :: "nat \<Rightarrow> number \<Rightarrow> nat" where
  "ToUint w v = nat ((if 0 \<le> v then \<lfloor>v\<rfloor> else \<lceil>v\<rceil>) mod 2 ^ w)"

text \<open>
  Modelled from the spec: \<open>IndexDatatype.createTypedArray\<close> is not part of the source file.
  The spec (section 4.3) says of it: "chosen from \<open>vertexCount\<close> (16-bit if it fits, else
  32-bit)". Indices below \<open>vertexCount\<close> fit into 16 bits when \<open>vertexCount \<le> 65536\<close>. Called
  with a length it allocates a zero-filled array (a fractional length is truncated); called
  with an array it copies the elements.
\<close>

definition indexBits :: "number \<Rightarrow> nat" where
  "indexBits numberOfVertices = (if numberOfVertices \<le> 65536 then 16 else 32)"

definition createTypedArray :: "number \<Rightarrow> number \<Rightarrow> TypedArray" where
  "createTypedArray numberOfVertices indicesLength =
     \<lparr>bits = indexBits numberOfVertices, elems = replicate (nat \<lfloor>indicesLength\<rfloor>) 0\<rparr>"

definition createTypedArrayFrom :: "number \<Rightarrow> TypedArray \<Rightarrow> TypedArray" where
  "createTypedArrayFrom numberOfVertices arr =
     \<lparr>bits = indexBits numberOfVertices,
      elems = map (\<lambda>v. ToUint (indexBits numberOfVertices) (real v)) (elems arr)\<rparr>"

text \<open>The statement \<open>indices[index++] = v\<close> on the pair of the array and the write index.\<close>

definition put :: "TypedArray \<times> nat \<Rightarrow> number \<Rightarrow> TypedArray \<times> nat" where
  "put s v = (case s of (indices, index) \<Rightarrow>
     (indices\<lparr>elems := (elems indices)[index := ToUint (bits indices) v]\<rparr>, index + 1))"

section \<open>The topology builder: \<open>computeAttributes\<close>\<close>

datatype ComponentDatatype = BYTE | UNSIGNED_BYTE | SHORT | UNSIGNED_SHORT | FLOAT | DOUBLE

datatype PrimitiveType =
  POINTS | LINES | LINE_LOOP | LINE_STRIP | TRIANGLES | TRIANGLE_STRIP | TRIANGLE_FAN

record GeometryAttribute =
  componentDatatype :: ComponentDatatype
  componentsPerAttribute :: nat
  attr_values :: "number list"

record 'bs Geometry =
  geometry_position :: GeometryAttribute
  geometry_indices :: TypedArray
  geometry_boundingSphere :: 'bs
  geometry_primitiveType :: PrimitiveType

text \<open>
  The loop of lines 61-64, which the source repeats at lines 70-73:
  \<open>for (j = 0; j < shapeLength - 1; j++) { indices[index++] = j + offset;
  indices[index++] = j + offset + 1; }\<close>
\<close>

function ringLoop :: "nat \<Rightarrow> nat \<Rightarrow> number \<Rightarrow> TypedArray \<times> nat \<Rightarrow> TypedArray \<times> nat" where
  "ringLoop j shapeLength offset s =
     (if int j < int shapeLength - 1
      then ringLoop (j + 1) shapeLength offset
             (put (put s (real j + offset)) (real j + offset + 1))
      else s)"
  by pat_completeness auto
termination
  by (relation "measure (\<lambda>(j, shapeLength, offset, s). shapeLength - j)") auto

declare ringLoop.simps [simp del]

text \<open>
  The inner loop of lines 80-83:
  \<open>for (j = 0; j < shapeLength; j++) { indices[index++] = j + firstOffset;
  indices[index++] = j + secondOffset; }\<close>
\<close>

function connectLoop :: "nat \<Rightarrow> nat \<Rightarrow> nat \<Rightarrow> nat \<Rightarrow> TypedArray \<times> nat \<Rightarrow> TypedArray \<times> nat" where
  "connectLoop j shapeLength firstOffset secondOffset s =
     (if j < shapeLength
      then connectLoop (j + 1) shapeLength firstOffset secondOffset
             (put (put s (real (j + firstOffset))) (real (j + secondOffset)))
      else s)"
  by pat_completeness auto
termination
  by (relation "measure (\<lambda>(j, shapeLength, firstOffset, secondOffset, s). shapeLength - j)") auto

declare connectLoop.simps [simp del]

text \<open>
  The outer loop of lines 77-84: \<open>for (i = 0; i < shapeCount - 1; i++)\<close>, where
  \<open>shapeCount\<close> is the quotient of two lengths.
\<close>

function sectionLoop :: "nat \<Rightarrow> nat \<Rightarrow> number \<Rightarrow> TypedArray \<times> nat \<Rightarrow> TypedArray \<times> nat" where
  "sectionLoop i shapeLength shapeCount s =
     (if real i < shapeCount - 1
      then (let firstOffset = shapeLength * i;
                secondOffset = firstOffset + shapeLength
            in sectionLoop (i + 1) shapeLength shapeCount
                 (connectLoop 0 shapeLength firstOffset secondOffset s))
      else s)"
  by pat_completeness auto
termination
proof (relation "measure (\<lambda>(i, shapeLength, shapeCount, s). nat \<lceil>shapeCount - 1\<rceil> - i)")
  show "wf (measure (\<lambda>(i, shapeLength, shapeCount, s). nat \<lceil>shapeCount - 1\<rceil> - i))"
    by simp
next
  fix i :: nat and shapeLength :: nat and shapeCount :: real and s :: "TypedArray \<times> nat"
    and x xa
  assume "real i < shapeCount - 1"
  then have "int i < \<lceil>shapeCount - 1\<rceil>"
    using le_of_int_ceiling [of "shapeCount - 1"] by linarith
  then have "i < nat \<lceil>shapeCount - 1\<rceil>"
    by linarith
  then show "((i + 1, shapeLength, shapeCount, connectLoop 0 shapeLength x xa s),
              (i, shapeLength, shapeCount, s))
             \<in> measure (\<lambda>(i, shapeLength, shapeCount, s). nat \<lceil>shapeCount - 1\<rceil> - i)"
    by simp
qed

declare sectionLoop.simps [simp del]

text \<open>
  Lines 52-84: the index buffer and the write index after the three groups. With an empty
  shape the source divides by zero: its \<open>shapeCount\<close> is \<open>Infinity\<close> (the loop of line 77
  then never ends) or \<open>NaN\<close>.
\<close>

definition computeIndices :: "number list \<Rightarrow> 'p list \<Rightarrow> failure + TypedArray \<times> nat" where
  "computeIndices positions shape =
     (let shapeLength = length shape;
          vertexCount = real (length positions) / 3;
          positionLength = real (length positions) / 3
      in if shapeLength = 0 then Inl (Unmodelled ''shapeCount is Infinity or NaN'')
      else
        let shapeCount = positionLength / real shapeLength;
            indices = createTypedArray vertexCount (2 * real shapeLength * (shapeCount + 1));
            index = 0;
            i = 0;
            offset = i * real shapeLength;
            s = ringLoop 0 shapeLength offset (indices, index);
            s = put s (real shapeLength - 1 + offset);
            s = put s offset;
            i = shapeCount - 1;
            offset = i * real shapeLength;
            s = ringLoop 0 shapeLength offset s;
            s = put s (real shapeLength - 1 + offset);
            s = put s offset;
            s = sectionLoop 0 shapeLength shapeCount s
        in Inr s)"

definition computeAttributes ::
  "(number list \<Rightarrow> 'bs) \<Rightarrow> number list \<Rightarrow> 'p list \<Rightarrow> failure + 'bs Geometry" where
  "computeAttributes fromVertices positions shape =
     (case computeIndices positions shape of
        Inl e \<Rightarrow> Inl e
      | Inr (indices, index) \<Rightarrow>
          Inr \<lparr>geometry_position =
                 \<lparr>componentDatatype = DOUBLE, componentsPerAttribute = 3, attr_values = positions\<rparr>,
               geometry_indices = createTypedArrayFrom (real (length positions) / 3) indices,
               geometry_boundingSphere = fromVertices positions,
               geometry_primitiveType = LINES\<rparr>)"

section \<open>The geometry description: constructor, \<open>pack\<close> and \<open>unpack\<close>\<close>

subsection \<open>Points, reference surfaces and the module's store\<close>

datatype Cartesian2 = Cartesian2 number number

datatype Cartesian3 = Cartesian3 number number number

text \<open>
  A packed array is a JavaScript \<open>Number[]\<close>: a slot holds a number or, when it was never
  written, \<open>undefined\<close> (\<open>None\<close>). A store to any index succeeds and leaves the other slots
  as they are.
\<close>

type_synonym packedArray = "nat \<rightharpoonup> number"

text \<open>
  Modelled from the spec: \<open>Cartesian3.pack\<close>, \<open>Cartesian3.unpack\<close>, \<open>Cartesian3.packedLength\<close>
  and their \<open>Cartesian2\<close> counterparts are not part of the source file. Section 6 of the
  specification gives their layout: "N path points, 3 numbers each (x,y,z)" and "M shape
  points, 2 numbers each (x,y)".
\<close>

definition Cartesian3_packedLength :: nat where
  "Cartesian3_packedLength = 3"

definition Cartesian2_packedLength :: nat where
  "Cartesian2_packedLength = 2"

fun Cartesian3_pack :: "Cartesian3 \<Rightarrow> packedArray \<Rightarrow> nat \<Rightarrow> packedArray" where
  "Cartesian3_pack (Cartesian3 x y z) array startingIndex =
     array(startingIndex \<mapsto> x, startingIndex + 1 \<mapsto> y, startingIndex + 2 \<mapsto> z)"

fun Cartesian2_pack :: "Cartesian2 \<Rightarrow> packedArray \<Rightarrow> nat \<Rightarrow> packedArray" where
  "Cartesian2_pack (Cartesian2 x y) array startingIndex =
     array(startingIndex \<mapsto> x, startingIndex + 1 \<mapsto> y)"

text \<open>
  A failure ends the call (a thrown error propagates); \<open>andThen\<close> is the sequencing of two
  steps of which the first may fail.

  Reading a slot. Where the slot holds \<open>undefined\<close> the source does not raise: it carries
  \<open>undefined\<close> on into the object it builds, which the types of this model (numbers only)
  cannot hold; the model stops there.
\<close>

definition andThen :: "failure + 'a \<Rightarrow> ('a \<Rightarrow> failure + 'b) \<Rightarrow> failure + 'b" where
  "andThen m f = (case m of Inl e \<Rightarrow> Inl e | Inr v \<Rightarrow> f v)"

definition readSlot :: "packedArray \<Rightarrow> nat \<Rightarrow> failure + number" where
  "readSlot array i =
     (case array i of
        None \<Rightarrow> Inl (Unmodelled ''undefined read from the packed array'')
      | Some v \<Rightarrow> Inr v)"

definition Cartesian3_unpack :: "packedArray \<Rightarrow> nat \<Rightarrow> failure + Cartesian3" where
  "Cartesian3_unpack array startingIndex =
     andThen (readSlot array startingIndex) (\<lambda>x.
     andThen (readSlot array (startingIndex + 1)) (\<lambda>y.
     andThen (readSlot array (startingIndex + 2)) (\<lambda>z.
     Inr (Cartesian3 x y z))))"

definition Cartesian2_unpack :: "packedArray \<Rightarrow> nat \<Rightarrow> failure + Cartesian2" where
  "Cartesian2_unpack array startingIndex =
     andThen (readSlot array startingIndex) (\<lambda>x.
     andThen (readSlot array (startingIndex + 1)) (\<lambda>y.
     Inr (Cartesian2 x y)))"

text \<open>
  \<open>new Array(length)\<close> with a number: a \<open>RangeError\<close> unless the number is an integer in
  \<open>[0, 2^32)\<close>.
\<close>

definition newArray :: "number \<Rightarrow> failure + nat" where
  "newArray len =
     (if 0 \<le> len \<and> len < 2 ^ 32 \<and> real_of_int \<lfloor>len\<rfloor> = len
      then Inr (nat \<lfloor>len\<rfloor>)
      else Inl (RangeError ''Invalid array length''))"

text \<open>
  What the source file uses of \<open>Ellipsoid\<close>, \<open>CornerType\<close> and \<open>CesiumMath\<close> without defining
  it is a parameter of the model: the type \<open>'e\<close> of the values of a reference surface (its
  radii), the slot width \<open>Ellipsoid.packedLength\<close>, the number that \<open>Ellipsoid.pack\<close> writes
  into each of these slots, the value that \<open>Ellipsoid.unpack\<close> builds from them, the
  constants \<open>Ellipsoid.WGS84\<close> and \<open>Ellipsoid.UNIT_SPHERE\<close>, the integer code
  \<open>CornerType.ROUNDED\<close> and \<open>CesiumMath.RADIANS_PER_DEGREE\<close>.
\<close>

record 'e Library =
  Ellipsoid_packedLength :: nat
  Ellipsoid_slot :: "'e \<Rightarrow> nat \<Rightarrow> number"
  Ellipsoid_fromSlots :: "number list \<Rightarrow> 'e"
  Ellipsoid_WGS84 :: 'e
  Ellipsoid_UNIT_SPHERE :: 'e
  CornerType_ROUNDED :: number
  RADIANS_PER_DEGREE :: number

text \<open>
  Reference surfaces are objects: the description holds a reference to one, and \<open>unpack\<close>
  decodes into an object that the whole module shares. The store maps references to the
  values of the objects; references from \<open>nextRef\<close> on are unused. The other mutable
  variable of the module that \<open>unpack\<close> touches, \<open>scratchOptions\<close>, is part of the store too.
\<close>

type_synonym ref = nat

record Options =
  opt_polylinePositions :: "Cartesian3 list option"
  opt_shapePositions :: "Cartesian2 list option"
  opt_ellipsoid :: "ref option"
  opt_cornerType :: "number option"
  opt_granularity :: "number option"

record 'e Store =
  ellipsoids :: "ref \<Rightarrow> 'e"
  nextRef :: ref
  scratchEllipsoid :: ref
  scratchOptions :: Options

record PolylineVolumeOutlineGeometry =
  priv_positions :: "Cartesian3 list"
  priv_shape :: "Cartesian2 list"
  priv_ellipsoid :: ref
  priv_cornerType :: number
  priv_granularity :: number
  packedLength :: nat

text \<open>
  Modelled from the spec: the functions of \<open>Ellipsoid\<close> are not part of the source file. By
  section 3 of the specification a description "owns its path/shape/reference-surface
  copies", and by section 5 the module keeps "a single shared scratch instance of the
  reference-surface type" that \<open>unpack\<close> writes. So
  \<open>Ellipsoid.clone(ellipsoid)\<close> makes a new object with the same value,
  \<open>Ellipsoid.clone(ellipsoid, result)\<close> copies the value into \<open>result\<close> and returns \<open>result\<close>,
  \<open>Ellipsoid.pack\<close> writes the \<open>Ellipsoid.packedLength\<close> slots from \<open>startingIndex\<close> on, and
  \<open>Ellipsoid.unpack(array, startingIndex, result)\<close> reads these slots and stores the value
  built from them into \<open>result\<close>.
\<close>

definition Ellipsoid_new :: "'e Store \<Rightarrow> 'e \<Rightarrow> ref \<times> 'e Store" where
  "Ellipsoid_new st v =
     (nextRef st, st\<lparr>ellipsoids := (ellipsoids st)(nextRef st := v), nextRef := nextRef st + 1\<rparr>)"

definition Ellipsoid_clone :: "'e Store \<Rightarrow> ref \<Rightarrow> ref option \<Rightarrow> ref \<times> 'e Store" where
  "Ellipsoid_clone st ellipsoid result =
     (case result of
        None \<Rightarrow> Ellipsoid_new st (ellipsoids st ellipsoid)
      | Some r \<Rightarrow> (r, st\<lparr>ellipsoids := (ellipsoids st)(r := ellipsoids st ellipsoid)\<rparr>))"

definition Ellipsoid_pack :: "'e Library \<Rightarrow> 'e \<Rightarrow> packedArray \<Rightarrow> nat \<Rightarrow> packedArray" where
  "Ellipsoid_pack lib v array startingIndex =
     (\<lambda>i. if startingIndex \<le> i \<and> i < startingIndex + Ellipsoid_packedLength lib
          then Some (Ellipsoid_slot lib v (i - startingIndex))
          else array i)"

fun readSlots :: "packedArray \<Rightarrow> nat \<Rightarrow> nat \<Rightarrow> failure + number list" where
  "readSlots array startingIndex 0 = Inr []"
| "readSlots array startingIndex (Suc n) =
     andThen (readSlot array startingIndex) (\<lambda>v.
     andThen (readSlots array (startingIndex + 1) n) (\<lambda>vs.
     Inr (v # vs)))"

definition Ellipsoid_unpack ::
  "'e Library \<Rightarrow> 'e Store \<Rightarrow> packedArray \<Rightarrow> nat \<Rightarrow> ref \<Rightarrow> failure + ref \<times> 'e Store" where
  "Ellipsoid_unpack lib st array startingIndex result =
     andThen (readSlots array startingIndex (Ellipsoid_packedLength lib)) (\<lambda>vs.
     Inr (result, st\<lparr>ellipsoids := (ellipsoids st)(result := Ellipsoid_fromSlots lib vs)\<rparr>))"

text \<open>
  The module's own initialisation (lines 206-214): \<open>scratchEllipsoid\<close> is a clone of the unit
  sphere, and \<open>scratchOptions.ellipsoid\<close> refers to it from then on.
\<close>

definition moduleInit :: "'e Library \<Rightarrow> 'e Store" where
  "moduleInit lib =
     \<lparr>ellipsoids = (\<lambda>r. Ellipsoid_UNIT_SPHERE lib),
      nextRef = 1,
      scratchEllipsoid = 0,
      scratchOptions =
        \<lparr>opt_polylinePositions = None, opt_shapePositions = None, opt_ellipsoid = Some 0,
         opt_cornerType = None, opt_granularity = None\<rparr>\<rparr>"

definition moduleInvariant :: "'e Store \<Rightarrow> bool" where
  "moduleInvariant st \<longleftrightarrow>
     opt_ellipsoid (scratchOptions st) = Some (scratchEllipsoid st) \<and> scratchEllipsoid st < nextRef st"

subsection \<open>The constructor (lines 131-159)\<close>

definition EMPTY_OBJECT :: Options where
  "EMPTY_OBJECT =
     \<lparr>opt_polylinePositions = None, opt_shapePositions = None, opt_ellipsoid = None,
      opt_cornerType = None, opt_granularity = None\<rparr>"

definition defaultValue :: "'a option \<Rightarrow> 'a \<Rightarrow> 'a" where
  "defaultValue a b = (case a of None \<Rightarrow> b | Some v \<Rightarrow> v)"

definition new_PolylineVolumeOutlineGeometry ::
  "'e Library \<Rightarrow> 'e Store \<Rightarrow> Options option \<Rightarrow> failure + PolylineVolumeOutlineGeometry \<times> 'e Store"
  where
  "new_PolylineVolumeOutlineGeometry lib st options =
     (let options = defaultValue options EMPTY_OBJECT in
      case opt_polylinePositions options of
        None \<Rightarrow> Inl (DeveloperError ''options.polylinePositions is required.'')
      | Some positions \<Rightarrow>
      case opt_shapePositions options of
        None \<Rightarrow> Inl (DeveloperError ''options.shapePositions is required.'')
      | Some shape \<Rightarrow>
          let (e, st) = (case opt_ellipsoid options of
                           None \<Rightarrow> Ellipsoid_new st (Ellipsoid_WGS84 lib)
                         | Some r \<Rightarrow> Ellipsoid_clone st r None);
              numComponents = 1 + length positions * Cartesian3_packedLength;
              numComponents = numComponents + (1 + length shape * Cartesian2_packedLength)
          in Inr (\<lparr>priv_positions = positions,
                   priv_shape = shape,
                   priv_ellipsoid = e,
                   priv_cornerType = defaultValue (opt_cornerType options) (CornerType_ROUNDED lib),
                   priv_granularity = defaultValue (opt_granularity options) (RADIANS_PER_DEGREE lib),
                   packedLength = numComponents + Ellipsoid_packedLength lib + 2\<rparr>, st))"

subsection \<open>\<open>pack\<close> (lines 169-204)\<close>

text \<open>
  The loops \<open>for (i = 0; i < length; ++i, startingIndex += packedLength)\<close> of lines 187-189
  and 195-197, on the pair of the array and \<open>startingIndex\<close>.
\<close>

function packPositions ::
  "nat \<Rightarrow> Cartesian3 list \<Rightarrow> packedArray \<times> nat \<Rightarrow> packedArray \<times> nat" where
  "packPositions i positions s =
     (if i < length positions
      then packPositions (i + 1) positions
             (Cartesian3_pack (positions ! i) (fst s) (snd s), snd s + Cartesian3_packedLength)
      else s)"
  by pat_completeness auto
termination
  by (relation "measure (\<lambda>(i, positions, s). length positions - i)") auto

declare packPositions.simps [simp del]

function packShape ::
  "nat \<Rightarrow> Cartesian2 list \<Rightarrow> packedArray \<times> nat \<Rightarrow> packedArray \<times> nat" where
  "packShape i shape s =
     (if i < length shape
      then packShape (i + 1) shape
             (Cartesian2_pack (shape ! i) (fst s) (snd s), snd s + Cartesian2_packedLength)
      else s)"
  by pat_completeness auto
termination
  by (relation "measure (\<lambda>(i, shape, s). length shape - i)") auto

declare packShape.simps [simp del]

definition pack ::
  "'e Library \<Rightarrow> 'e Store \<Rightarrow> PolylineVolumeOutlineGeometry option \<Rightarrow> packedArray option \<Rightarrow>
   nat option \<Rightarrow> failure + packedArray" where
  "pack lib st value array startingIndex =
     (case value of None \<Rightarrow> Inl (DeveloperError ''value is required'') | Some value \<Rightarrow>
      case array of None \<Rightarrow> Inl (DeveloperError ''array is required'') | Some array \<Rightarrow>
      let startingIndex = defaultValue startingIndex 0;
          positions = priv_positions value;
          len = length positions;
          array = array(startingIndex \<mapsto> real len);
          startingIndex = startingIndex + 1;
          (array, startingIndex) = packPositions 0 positions (array, startingIndex);
          shape = priv_shape value;
          len = length shape;
          array = array(startingIndex \<mapsto> real len);
          startingIndex = startingIndex + 1;
          (array, startingIndex) = packShape 0 shape (array, startingIndex);
          array = Ellipsoid_pack lib (ellipsoids st (priv_ellipsoid value)) array startingIndex;
          startingIndex = startingIndex + Ellipsoid_packedLength lib;
          array = array(startingIndex \<mapsto> priv_cornerType value);
          startingIndex = startingIndex + 1;
          array = array(startingIndex \<mapsto> priv_granularity value)
      in Inr array)"

subsection \<open>\<open>unpack\<close> (lines 223-269)\<close>

text \<open>
  The loops of lines 237-239 and 244-246. \<open>positions[i] = \<dots>\<close> for \<open>i = 0, 1, \<dots>\<close> fills the
  new array from the front, so the model appends.
\<close>

function unpackPositions ::
  "nat \<Rightarrow> nat \<Rightarrow> packedArray \<Rightarrow> Cartesian3 list \<times> nat \<Rightarrow> failure + Cartesian3 list \<times> nat" where
  "unpackPositions i len array s =
     (if i < len
      then andThen (Cartesian3_unpack array (snd s)) (\<lambda>p.
             unpackPositions (i + 1) len array (fst s @ [p], snd s + Cartesian3_packedLength))
      else Inr s)"
  by pat_completeness auto
termination
  by (relation "measure (\<lambda>(i, len, array, s). len - i)") auto

declare unpackPositions.simps [simp del]

function unpackShape ::
  "nat \<Rightarrow> nat \<Rightarrow> packedArray \<Rightarrow> Cartesian2 list \<times> nat \<Rightarrow> failure + Cartesian2 list \<times> nat" where
  "unpackShape i len array s =
     (if i < len
      then andThen (Cartesian2_unpack array (snd s)) (\<lambda>p.
             unpackShape (i + 1) len array (fst s @ [p], snd s + Cartesian2_packedLength))
      else Inr s)"
  by pat_completeness auto
termination
  by (relation "measure (\<lambda>(i, len, array, s). len - i)") auto

declare unpackShape.simps [simp del]

definition unpack ::
  "'e Library \<Rightarrow> 'e Store \<Rightarrow> packedArray option \<Rightarrow> nat option \<Rightarrow>
   PolylineVolumeOutlineGeometry option \<Rightarrow> failure + PolylineVolumeOutlineGeometry \<times> 'e Store"
  where
  "unpack lib st array startingIndex result =
     (case array of None \<Rightarrow> Inl (DeveloperError ''array is required'') | Some array \<Rightarrow>
      let startingIndex = defaultValue startingIndex 0 in
      andThen (readSlot array startingIndex) (\<lambda>len.
      andThen (newArray len) (\<lambda>len.
      andThen (unpackPositions 0 len array ([], startingIndex + 1)) (\<lambda>(positions, startingIndex).
      andThen (readSlot array startingIndex) (\<lambda>len.
      andThen (newArray len) (\<lambda>len.
      andThen (unpackShape 0 len array ([], startingIndex + 1)) (\<lambda>(shape, startingIndex).
      andThen (Ellipsoid_unpack lib st array startingIndex (scratchEllipsoid st)) (\<lambda>(ellipsoid, st).
      let startingIndex = startingIndex + Ellipsoid_packedLength lib in
      andThen (readSlot array startingIndex) (\<lambda>cornerType.
      andThen (readSlot array (startingIndex + 1)) (\<lambda>granularity.
      (case result of
         None \<Rightarrow>
           let st = st\<lparr>scratchOptions := (scratchOptions st)
                        \<lparr>opt_polylinePositions := Some positions,
                         opt_shapePositions := Some shape,
                         opt_cornerType := Some cornerType,
                         opt_granularity := Some granularity\<rparr>\<rparr>
           in new_PolylineVolumeOutlineGeometry lib st (Some (scratchOptions st))
       | Some result \<Rightarrow>
           let (e, st) = Ellipsoid_clone st ellipsoid (Some (priv_ellipsoid result))
           in Inr (result\<lparr>priv_positions := positions,
                          priv_shape := shape,
                          priv_ellipsoid := e,
                          priv_cornerType := cornerType,
                          priv_granularity := granularity\<rparr>, st))))))))))))"

section \<open>\<open>createGeometry\<close> (lines 282-304)\<close>

datatype WindingOrder = CLOCKWISE | COUNTER_CLOCKWISE

text \<open>
  Modelled from the spec: \<open>PolygonPipeline.computeWindingOrder2D\<close> is not part of the source
  file. Section 4.1 of the specification says: "compute the 2D signed area (shoelace
  formula) of \<open>cleanShape\<close>. If negative (clockwise), reverse the point order". The shoelace
  formula is half the sum of \<open>x0 * y1 - x1 * y0\<close> over the edges \<open>(v0, v1)\<close> of the closed
  polygon: the edge from the last point back to the first one and the edges between
  consecutive points. The sum is taken over the reals, without the rounding of doubles.
\<close>

fun cross2 :: "Cartesian2 \<Rightarrow> Cartesian2 \<Rightarrow> number" where
  "cross2 (Cartesian2 x0 y0) (Cartesian2 x1 y1) = x0 * y1 - x1 * y0"

fun edgeSum :: "Cartesian2 list \<Rightarrow> number" where
  "edgeSum (v0 # v1 # vs) = cross2 v0 v1 + edgeSum (v1 # vs)"
| "edgeSum vs = 0"

definition computeArea2D :: "Cartesian2 list \<Rightarrow> number" where
  "computeArea2D positions =
     (if positions = [] then 0
      else (cross2 (last positions) (hd positions) + edgeSum positions) / 2)"

definition computeWindingOrder2D :: "Cartesian2 list \<Rightarrow> WindingOrder" where
  "computeWindingOrder2D positions =
     (if computeArea2D positions < 0 then CLOCKWISE else COUNTER_CLOCKWISE)"

text \<open>
  The collaborators that the specification leaves opaque are parameters of the model: the
  duplicate removal for the path and for the shape, the bounding rectangle of the shape,
  the sweep \<open>computePositions\<close> (which receives the description and, through it, its
  reference surface) and the bounding sphere of the vertices.
\<close>

record ('e, 'br, 'bs) Collaborators =
  removeDuplicatesFromPositions :: "Cartesian3 list \<Rightarrow> 'e \<Rightarrow> Cartesian3 list"
  removeDuplicatesFromShape :: "Cartesian2 list \<Rightarrow> Cartesian2 list"
  BoundingRectangle_fromPoints :: "Cartesian2 list \<Rightarrow> 'br"
  computePositions ::
    "Cartesian3 list \<Rightarrow> Cartesian2 list \<Rightarrow> 'br \<Rightarrow> PolylineVolumeOutlineGeometry \<Rightarrow> 'e \<Rightarrow> bool
     \<Rightarrow> number list"
  BoundingSphere_fromVertices :: "number list \<Rightarrow> 'bs"

text \<open>
  Lines 297-299: \<open>if (computeWindingOrder2D(shape2D) === WindingOrder.CLOCKWISE)
  { shape2D.reverse(); }\<close>
\<close>

definition windingFix :: "Cartesian2 list \<Rightarrow> Cartesian2 list" where
  "windingFix shape2D =
     (if computeWindingOrder2D shape2D = CLOCKWISE then rev shape2D else shape2D)"

text \<open>
  Lines 300-303, everything downstream of the winding fix: the bounding rectangle (written
  into the module's \<open>brScratch\<close>, whose new contents are the second component of the
  result), the sweep and the topology builder.
\<close>

definition sweepOutline ::
  "('e, 'br, 'bs) Collaborators \<Rightarrow> 'e Store \<Rightarrow> PolylineVolumeOutlineGeometry \<Rightarrow>
   Cartesian3 list \<Rightarrow> Cartesian2 list \<Rightarrow> failure + 'bs Geometry \<times> 'br" where
  "sweepOutline ext st polylineVolumeOutlineGeometry cleanPositions shape2D =
     (let boundingRectangle = BoundingRectangle_fromPoints ext shape2D;
          computedPositions =
            computePositions ext cleanPositions shape2D boundingRectangle
              polylineVolumeOutlineGeometry
              (ellipsoids st (priv_ellipsoid polylineVolumeOutlineGeometry)) False
      in andThen (computeAttributes (BoundingSphere_fromVertices ext) computedPositions shape2D)
           (\<lambda>geometry. Inr (geometry, boundingRectangle)))"

definition createGeometry ::
  "('e, 'br, 'bs) Collaborators \<Rightarrow> 'e Store \<Rightarrow> PolylineVolumeOutlineGeometry \<Rightarrow>
   failure + 'bs Geometry \<times> 'br" where
  "createGeometry ext st polylineVolumeOutlineGeometry =
     (let positions = priv_positions polylineVolumeOutlineGeometry;
          cleanPositions =
            removeDuplicatesFromPositions ext positions
              (ellipsoids st (priv_ellipsoid polylineVolumeOutlineGeometry));
          shape2D = priv_shape polylineVolumeOutlineGeometry;
          shape2D = removeDuplicatesFromShape ext shape2D
      in if length cleanPositions < 2
         then Inl (DeveloperError ''Count of unique polyline positions must be greater than 1.'')
         else if length shape2D < 3
         then Inl (DeveloperError ''Count of unique shape positions must be at least 3.'')
         else sweepOutline ext st polylineVolumeOutlineGeometry cleanPositions
                (windingFix shape2D))"

section \<open>The index groups as the specification words them\<close>

text \<open>
  Section 4.3 of the specification, in its own words. The start ring: for \<open>j\<close> in
  \<open>[0, shapeLength - 1)\<close> the pair \<open>(j, j + 1)\<close>, then the closing pair
  \<open>(shapeLength - 1, 0)\<close>; the end ring is the same pattern shifted by the offset of the
  last cross-section; the connectors: for \<open>i\<close> from \<open>0\<close> to \<open>shapeCount - 2\<close> and \<open>j\<close> in
  \<open>[0, shapeLength)\<close> the pair \<open>(j + i * shapeLength, j + (i + 1) * shapeLength)\<close>.
\<close>

definition specRing :: "nat \<Rightarrow> nat \<Rightarrow> nat list" where
  "specRing shapeLength offset =
     concat (map (\<lambda>j. [j + offset, j + 1 + offset]) [0..<shapeLength - 1])
     @ [shapeLength - 1 + offset, offset]"

definition specConnectors :: "nat \<Rightarrow> nat \<Rightarrow> nat list" where
  "specConnectors shapeLength shapeCount =
     concat (map (\<lambda>i. concat (map (\<lambda>j. [j + i * shapeLength, j + (i + 1) * shapeLength])
                                [0..<shapeLength]))
                 [0..<shapeCount - 1])"

definition specIndices :: "nat \<Rightarrow> nat \<Rightarrow> nat list" where
  "specIndices shapeLength shapeCount =
     specRing shapeLength 0 @ specRing shapeLength ((shapeCount - 1) * shapeLength)
     @ specConnectors shapeLength shapeCount"

text \<open>
  The numbers that each loop of the source writes, in order, and the writing of a list of
  numbers through \<open>put\<close>; the loops are shown equal to these below.
\<close>

definition putAll :: "number list \<Rightarrow> TypedArray \<times> nat \<Rightarrow> TypedArray \<times> nat" where
  "putAll vs s = fold (\<lambda>v s. put s v) vs s"

definition ringValues :: "nat \<Rightarrow> nat \<Rightarrow> number \<Rightarrow> number list" where
  "ringValues j shapeLength offset =
     concat (map (\<lambda>j. [real j + offset, real j + offset + 1]) [j..<shapeLength - 1])"

definition connectValues :: "nat \<Rightarrow> nat \<Rightarrow> nat \<Rightarrow> nat \<Rightarrow> number list" where
  "connectValues j shapeLength firstOffset secondOffset =
     concat (map (\<lambda>j. [real (j + firstOffset), real (j + secondOffset)]) [j..<shapeLength])"

definition sectionValues :: "nat \<Rightarrow> nat \<Rightarrow> nat \<Rightarrow> number list" where
  "sectionValues i shapeLength n =
     concat (map (\<lambda>i. connectValues 0 shapeLength (shapeLength * i) (shapeLength * i + shapeLength))
       [i..<n])"

section \<open>The wire format as the specification words it\<close>

text \<open>
  Section 6 of the specification: the path count, the path points with three numbers each,
  the shape count, the shape points with two numbers each, the encoding of the reference
  surface, the corner style and the granularity, with no padding.
\<close>

fun coords3 :: "Cartesian3 \<Rightarrow> number list" where
  "coords3 (Cartesian3 x y z) = [x, y, z]"

fun coords2 :: "Cartesian2 \<Rightarrow> number list" where
  "coords2 (Cartesian2 x y) = [x, y]"

definition layout ::
  "Cartesian3 list \<Rightarrow> Cartesian2 list \<Rightarrow> number list \<Rightarrow> number \<Rightarrow> number \<Rightarrow> number list" where
  "layout path shape surface cornerStyle gran =
     [real (length path)] @ concat (map coords3 path)
     @ [real (length shape)] @ concat (map coords2 shape)
     @ surface @ [cornerStyle, gran]"

definition surfaceSlots :: "'e Library \<Rightarrow> 'e \<Rightarrow> number list" where
  "surfaceSlots lib v = map (Ellipsoid_slot lib v) [0..<Ellipsoid_packedLength lib]"

definition specLayout ::
  "'e Library \<Rightarrow> 'e Store \<Rightarrow> PolylineVolumeOutlineGeometry \<Rightarrow> number list" where
  "specLayout lib st value =
     layout (priv_positions value) (priv_shape value)
       (surfaceSlots lib (ellipsoids st (priv_ellipsoid value)))
       (priv_cornerType value) (priv_granularity value)"

text \<open>
  An array after a list of numbers has been written into consecutive slots, and an array
  that holds a list of numbers in consecutive slots.
\<close>

definition writeSlots :: "packedArray \<Rightarrow> nat \<Rightarrow> number list \<Rightarrow> packedArray" where
  "writeSlots array startingIndex vs =
     (\<lambda>i. if startingIndex \<le> i \<and> i < startingIndex + length vs
          then Some (vs ! (i - startingIndex))
          else array i)"

definition holds :: "packedArray \<Rightarrow> nat \<Rightarrow> number list \<Rightarrow> bool" where
  "holds array startingIndex vs \<longleftrightarrow> (\<forall>j < length vs. array (startingIndex + j) = Some (vs ! j))"

text \<open>
  The library's own round trip: \<open>Ellipsoid.unpack\<close> rebuilds the reference surface from the
  slots that \<open>Ellipsoid.pack\<close> wrote.
\<close>

definition surfaceRoundTrip :: "'e Library \<Rightarrow> bool" where
  "surfaceRoundTrip lib \<longleftrightarrow> (\<forall>v. Ellipsoid_fromSlots lib (surfaceSlots lib v) = v)"

section \<open>A concrete library and concrete descriptions\<close>

text \<open>
  An instance of the parameters, for the concrete runs below: a reference surface is its
  three radii, packed into three slots; duplicate removal drops a point equal to its
  predecessor; the sweep emits one cross-section per path point.
\<close>

fun radiiSlot :: "Cartesian3 \<Rightarrow> nat \<Rightarrow> number" where
  "radiiSlot (Cartesian3 x y z) i = (if i = 0 then x else if i = 1 then y else z)"

fun radiiFromSlots :: "number list \<Rightarrow> Cartesian3" where
  "radiiFromSlots [x, y, z] = Cartesian3 x y z"
| "radiiFromSlots vs = Cartesian3 0 0 0"

definition exampleLibrary :: "Cartesian3 Library" where
  "exampleLibrary =
     \<lparr>Ellipsoid_packedLength = 3,
      Ellipsoid_slot = radiiSlot,
      Ellipsoid_fromSlots = radiiFromSlots,
      Ellipsoid_WGS84 = Cartesian3 6378137 6378137 6356752,
      Ellipsoid_UNIT_SPHERE = Cartesian3 1 1 1,
      CornerType_ROUNDED = 0,
      RADIANS_PER_DEGREE = pi / 180\<rparr>"

definition exampleCollaborators :: "(Cartesian3, unit, unit) Collaborators" where
  "exampleCollaborators =
     \<lparr>removeDuplicatesFromPositions = (\<lambda>positions ellipsoid. remdups_adj positions),
      removeDuplicatesFromShape = remdups_adj,
      BoundingRectangle_fromPoints = (\<lambda>shape2D. ()),
      computePositions = (\<lambda>positions shape2D boundingRectangle geometry ellipsoid duplicatePoints.
         concat (map (\<lambda>p. concat (map (\<lambda>q. [0, 0, 0]) shape2D)) positions)),
      BoundingSphere_fromVertices = (\<lambda>positions. ())\<rparr>"

text \<open>
  The store with \<open>scratchEllipsoid\<close> (object 0) and the reference surface of one description
  (object 1), and the store after a second description was constructed on the default
  surface (object 2).
\<close>

definition exampleStoreBefore :: "Cartesian3 Store" where
  "exampleStoreBefore =
     \<lparr>ellipsoids = (\<lambda>r. if r = 1 then Cartesian3 3 2 1 else Cartesian3 1 1 1),
      nextRef = 2,
      scratchEllipsoid = 0,
      scratchOptions =
        \<lparr>opt_polylinePositions = None, opt_shapePositions = None, opt_ellipsoid = Some 0,
         opt_cornerType = None, opt_granularity = None\<rparr>\<rparr>"

definition exampleStore :: "Cartesian3 Store" where
  "exampleStore =
     \<lparr>ellipsoids = (\<lambda>r. if r = 1 then Cartesian3 3 2 1
                         else if r = 2 then Cartesian3 6378137 6378137 6356752
                         else Cartesian3 1 1 1),
      nextRef = 3,
      scratchEllipsoid = 0,
      scratchOptions =
        \<lparr>opt_polylinePositions = None, opt_shapePositions = None, opt_ellipsoid = Some 0,
         opt_cornerType = None, opt_granularity = None\<rparr>\<rparr>"

text \<open>A clockwise triangle swept along two points, on the surface object 1.\<close>

definition exampleDescription :: PolylineVolumeOutlineGeometry where
  "exampleDescription =
     \<lparr>priv_positions = [Cartesian3 0 0 0, Cartesian3 10 0 0],
      priv_shape = [Cartesian2 0 0, Cartesian2 0 1, Cartesian2 1 0],
      priv_ellipsoid = 1,
      priv_cornerType = 1,
      priv_granularity = 1 / 2,
      packedLength = 19\<rparr>"

text \<open>A path of four points and a shape of three.\<close>

definition exampleLongPath :: PolylineVolumeOutlineGeometry where
  "exampleLongPath =
     \<lparr>priv_positions = [Cartesian3 0 0 0, Cartesian3 10 0 0, Cartesian3 10 10 0, Cartesian3 20 10 0],
      priv_shape = [Cartesian2 0 0, Cartesian2 1 0, Cartesian2 0 1],
      priv_ellipsoid = 1,
      priv_cornerType = 2,
      priv_granularity = 1 / 4,
      packedLength = 25\<rparr>"

text \<open>
  The options of a description with a path of two points and a shape of six, and the
  description that the constructor makes of them in \<open>exampleStoreBefore\<close>.
\<close>

definition exampleHexagonOptions :: Options where
  "exampleHexagonOptions =
     \<lparr>opt_polylinePositions = Some [Cartesian3 0 0 0, Cartesian3 0 0 10],
      opt_shapePositions =
        Some [Cartesian2 2 0, Cartesian2 1 2, Cartesian2 (- 1) 2,
              Cartesian2 (- 2) 0, Cartesian2 (- 1) (- 2), Cartesian2 1 (- 2)],
      opt_ellipsoid = None,
      opt_cornerType = None,
      opt_granularity = Some (1 / 8)\<rparr>"

definition exampleHexagon :: PolylineVolumeOutlineGeometry where
  "exampleHexagon =
     \<lparr>priv_positions = [Cartesian3 0 0 0, Cartesian3 0 0 10],
      priv_shape =
        [Cartesian2 2 0, Cartesian2 1 2, Cartesian2 (- 1) 2,
         Cartesian2 (- 2) 0, Cartesian2 (- 1) (- 2), Cartesian2 1 (- 2)],
      priv_ellipsoid = 2,
      priv_cornerType = 0,
      priv_granularity = 1 / 8,
      packedLength = 25\<rparr>"

text \<open>
  The slots that \<open>pack\<close> writes for \<open>exampleLongPath\<close> into an empty array, and
  \<open>exampleHexagon\<close> after this array was unpacked into it.
\<close>

definition exampleLongPathPacked :: packedArray where
  "exampleLongPathPacked =
     writeSlots Map.empty 0
       [4, 0, 0, 0, 10, 0, 0, 10, 10, 0, 20, 10, 0,
        3, 0, 0, 1, 0, 0, 1,
        3, 2, 1,
        2, 1 / 4]"

definition exampleHexagonOverwritten :: PolylineVolumeOutlineGeometry where
  "exampleHexagonOverwritten =
     \<lparr>priv_positions = [Cartesian3 0 0 0, Cartesian3 10 0 0, Cartesian3 10 10 0, Cartesian3 20 10 0],
      priv_shape = [Cartesian2 0 0, Cartesian2 1 0, Cartesian2 0 1],
      priv_ellipsoid = 2,
      priv_cornerType = 2,
      priv_granularity = 1 / 4,
      packedLength = 25\<rparr>"

text \<open>Reading a slot of the array that a call of \<open>pack\<close> returns.\<close>

definition slotAfter :: "failure + packedArray \<Rightarrow> nat \<Rightarrow> number option" where
  "slotAfter r i = (case r of Inl e \<Rightarrow> None | Inr array \<Rightarrow> array i)"

text \<open>The description that a call of the constructor or of \<open>unpack\<close> returns.\<close>

definition returned ::
  "failure + PolylineVolumeOutlineGeometry \<times> 'e Store \<Rightarrow> PolylineVolumeOutlineGeometry option"
  where
  "returned r = (case r of Inl e \<Rightarrow> None | Inr (g, st) \<Rightarrow> Some g)"

section \<open>The loops of the topology builder in closed form\<close>

lemma putAll_Nil [simp]: "putAll [] s = s"
  by (simp add: putAll_def)

lemma putAll_Cons [simp]: "putAll (v # vs) s = putAll vs (put s v)"
  by (simp add: putAll_def)

lemma putAll_append [simp]: "putAll (vs @ ws) s = putAll ws (putAll vs s)"
  by (simp add: putAll_def)

lemma ringLoop_putAll: "ringLoop j shapeLength offset s = putAll (ringValues j shapeLength offset) s"
proof (induction j shapeLength offset s rule: ringLoop.induct)
  case (1 j shapeLength offset s)
  show ?case
  proof (cases "int j < int shapeLength - 1")
    case True
    then have "j < shapeLength - 1" by linarith
    then have "[j..<shapeLength - 1] = j # [j + 1..<shapeLength - 1]"
      by (simp add: upt_conv_Cons)
    with True "1.IH" show ?thesis
      by (subst ringLoop.simps) (simp add: ringValues_def)
  next
    case False
    then have "\<not> j < shapeLength - 1" by linarith
    with False show ?thesis
      by (subst ringLoop.simps) (simp add: ringValues_def)
  qed
qed

lemma connectLoop_putAll:
  "connectLoop j shapeLength firstOffset secondOffset s =
     putAll (connectValues j shapeLength firstOffset secondOffset) s"
proof (induction j shapeLength firstOffset secondOffset s rule: connectLoop.induct)
  case (1 j shapeLength firstOffset secondOffset s)
  show ?case
  proof (cases "j < shapeLength")
    case True
    then have "[j..<shapeLength] = j # [j + 1..<shapeLength]"
      by (simp add: upt_conv_Cons)
    with True "1.IH" show ?thesis
      by (subst connectLoop.simps) (simp add: connectValues_def)
  next
    case False
    then show ?thesis
      by (subst connectLoop.simps) (simp add: connectValues_def)
  qed
qed

lemma sectionLoop_putAll:
  "sectionLoop i shapeLength (real shapeCount) s = putAll (sectionValues i shapeLength (shapeCount - 1)) s"
proof (induction "shapeCount - 1 - i" arbitrary: i s)
  case 0
  then have "\<not> real i < real shapeCount - 1" by linarith
  moreover from 0 have "[i..<shapeCount - 1] = []" by simp
  ultimately show ?case
    by (subst sectionLoop.simps) (simp add: sectionValues_def)
next
  case (Suc d)
  then have lt: "real i < real shapeCount - 1" by linarith
  from Suc have "i < shapeCount - 1" by linarith
  then have upt: "[i..<shapeCount - 1] = i # [i + 1..<shapeCount - 1]"
    by (simp add: upt_conv_Cons)
  from Suc have "d = shapeCount - 1 - (i + 1)" by linarith
  from Suc.hyps(1) [OF this] lt upt show ?case
    by (subst sectionLoop.simps) (simp add: sectionValues_def connectLoop_putAll Let_def)
qed

lemma putAll_elems:
  "index + length vs \<le> length xs \<Longrightarrow>
   putAll vs (\<lparr>bits = w, elems = xs\<rparr>, index) =
     (\<lparr>bits = w, elems = take index xs @ map (ToUint w) vs @ drop (index + length vs) xs\<rparr>,
      index + length vs)"
proof (induction vs arbitrary: xs index)
  case Nil
  then show ?case by simp
next
  case (Cons v vs)
  from Cons.prems have lt: "index < length xs" by simp
  have "putAll (v # vs) (\<lparr>bits = w, elems = xs\<rparr>, index) =
        putAll vs (\<lparr>bits = w, elems = xs[index := ToUint w v]\<rparr>, index + 1)"
    by (simp add: put_def)
  also have "\<dots> = (\<lparr>bits = w, elems = take (index + 1) (xs[index := ToUint w v]) @ map (ToUint w) vs
                  @ drop (index + 1 + length vs) (xs[index := ToUint w v])\<rparr>, index + 1 + length vs)"
    using Cons.prems by (intro Cons.IH) simp
  also have "take (index + 1) (xs[index := ToUint w v]) = take index xs @ [ToUint w v]"
    using lt by (simp add: take_Suc_conv_app_nth)
  also have "drop (index + 1 + length vs) (xs[index := ToUint w v]) = drop (index + 1 + length vs) xs"
    by simp
  finally show ?case by simp
qed

lemma ToUint_nat: "ToUint w (real m) = m mod 2 ^ w"
proof -
  have "int m mod 2 ^ w = int (m mod 2 ^ w)"
    by (simp add: zmod_int)
  then show ?thesis by (simp add: ToUint_def)
qed

lemma length_concat_pairs: "length (concat (map (\<lambda>j. [f j, g j]) xs)) = 2 * length xs"
  by (induction xs) simp_all

lemma length_specRing: "length (specRing shapeLength offset) = 2 * (shapeLength - 1) + 2"
  by (simp add: specRing_def length_concat_pairs)

lemma length_concat_const:
  "(\<And>x. x \<in> set xs \<Longrightarrow> length (f x) = n) \<Longrightarrow> length (concat (map f xs)) = length xs * n"
  by (induction xs) simp_all

lemma length_specConnectors:
  "length (specConnectors shapeLength shapeCount) = (shapeCount - 1) * (2 * shapeLength)"
  unfolding specConnectors_def
  by (subst length_concat_const [where n = "2 * shapeLength"]) (simp_all add: length_concat_pairs)

lemma length_specIndices:
  assumes "1 \<le> shapeLength" and "1 \<le> shapeCount"
  shows "length (specIndices shapeLength shapeCount) = 2 * shapeLength * (shapeCount + 1)"
proof -
  obtain l where l: "shapeLength = Suc l" using assms(1) by (cases shapeLength) auto
  obtain c where c: "shapeCount = Suc c" using assms(2) by (cases shapeCount) auto
  show ?thesis
    by (simp add: specIndices_def length_specRing length_specConnectors l c algebra_simps)
qed

lemma specRing_bound:
  assumes "1 \<le> shapeLength" and "x \<in> set (specRing shapeLength offset)"
  shows "x < offset + shapeLength"
  using assms by (auto simp: specRing_def)

lemma specConnectors_bound:
  assumes "x \<in> set (specConnectors shapeLength shapeCount)"
  shows "x < shapeCount * shapeLength"
proof -
  from assms obtain i j where i: "i < shapeCount - 1" and j: "j < shapeLength"
    and x: "x = j + i * shapeLength \<or> x = j + (i + 1) * shapeLength"
    by (auto simp: specConnectors_def)
  from i have "(i + 2) * shapeLength \<le> shapeCount * shapeLength"
    by (intro mult_le_mono1) linarith
  moreover from x j have "x < (i + 2) * shapeLength"
    by (auto simp: algebra_simps)
  ultimately show ?thesis by linarith
qed

lemma specIndices_bound:
  assumes "1 \<le> shapeLength" and "1 \<le> shapeCount"
    and "x \<in> set (specIndices shapeLength shapeCount)"
  shows "x < shapeCount * shapeLength"
proof -
  obtain c where c: "shapeCount = Suc c" using assms(2) by (cases shapeCount) auto
  have le: "shapeLength \<le> shapeCount * shapeLength" using assms(2) by simp
  have last: "(shapeCount - 1) * shapeLength + shapeLength = shapeCount * shapeLength"
    by (simp add: c)
  from assms(3) consider
      "x \<in> set (specRing shapeLength 0)"
    | "x \<in> set (specRing shapeLength ((shapeCount - 1) * shapeLength))"
    | "x \<in> set (specConnectors shapeLength shapeCount)"
    by (auto simp: specIndices_def)
  then show ?thesis
  proof cases
    case 1
    from specRing_bound [OF assms(1) this] le show ?thesis by linarith
  next
    case 2
    from specRing_bound [OF assms(1) this] last show ?thesis by linarith
  next
    case 3
    then show ?thesis by (rule specConnectors_bound)
  qed
qed

lemma ringValues_spec:
  assumes "1 \<le> shapeLength"
  shows "ringValues 0 shapeLength (real offset) @ [real shapeLength - 1 + real offset, real offset]
         = map real (specRing shapeLength offset)"
proof -
  obtain l where "shapeLength = Suc l" using assms by (cases shapeLength) auto
  then show ?thesis
    unfolding ringValues_def specRing_def
    by (simp add: map_concat comp_def algebra_simps)
qed

lemma sectionValues_spec:
  "sectionValues 0 shapeLength (shapeCount - 1) = map real (specConnectors shapeLength shapeCount)"
  unfolding sectionValues_def connectValues_def specConnectors_def
  by (simp add: map_concat comp_def algebra_simps)

lemma map_mod_fits:
  "(\<And>x. x \<in> set xs \<Longrightarrow> x < 2 ^ w) \<Longrightarrow> map (\<lambda>m. m mod 2 ^ w) xs = (xs :: nat list)"
  by (induction xs) simp_all

lemma indexBits_fits:
  assumes "x < vertexCount" and "3 * vertexCount < 2 ^ 32"
  shows "x < 2 ^ indexBits (real vertexCount)"
proof (cases "vertexCount \<le> 65536")
  case True
  then have "indexBits (real vertexCount) = 16" by (simp add: indexBits_def)
  moreover from True assms(1) have "x < 2 ^ 16" by simp
  ultimately show ?thesis by simp
next
  case False
  then have "indexBits (real vertexCount) = 32" by (simp add: indexBits_def)
  moreover from assms have "x < 2 ^ 32" by linarith
  ultimately show ?thesis by simp
qed

lemma computeIndices_exact:
  assumes len: "length positions = 3 * vertexCount"
    and vc: "vertexCount = shapeCount * length shape"
    and L: "1 \<le> length shape"
    and C: "1 \<le> shapeCount"
  shows "computeIndices positions shape =
           Inr (\<lparr>bits = indexBits (real vertexCount),
                 elems = map (\<lambda>m. m mod 2 ^ indexBits (real vertexCount))
                           (specIndices (length shape) shapeCount)\<rparr>,
                2 * length shape * (shapeCount + 1))"
proof -
  define n where "n = length shape"
  define w where "w = indexBits (real vertexCount)"
  obtain l where l: "n = Suc l" using L by (cases n) (auto simp: n_def)
  have n0: "n \<noteq> 0" using l by simp
  have q1: "real (length positions) / 3 = real vertexCount"
    by (simp add: len)
  have q2: "real vertexCount / real n = real shapeCount"
    using n0 by (simp add: vc n_def)
  have alloc: "nat \<lfloor>2 * real n * (real shapeCount + 1)\<rfloor> = 2 * n * (shapeCount + 1)"
  proof -
    have "2 * real n * (real shapeCount + 1) = real (2 * n * (shapeCount + 1))"
      by (simp add: algebra_simps)
    then show ?thesis by (simp only: floor_of_nat nat_int)
  qed
  have last: "(real shapeCount - 1) * real n = real ((shapeCount - 1) * n)"
    using C by (simp add: of_nat_diff)
  let ?vs = "map real (specIndices n shapeCount)"
  have size: "length (specIndices n shapeCount) = 2 * n * (shapeCount + 1)"
    using L C by (simp add: length_specIndices n_def)
  have n1: "1 \<le> n" using L by (simp add: n_def)
  define off where "off = real ((shapeCount - 1) * n)"
  define A where "A = ringValues 0 n 0 @ [real n - 1, 0]"
  define B where "B = ringValues 0 n off @ [real n - 1 + off, off]"
  define D where "D = sectionValues 0 n (shapeCount - 1)"
  have "A = map real (specRing n 0)"
    using ringValues_spec [OF n1, of 0] by (simp add: A_def)
  moreover have "B = map real (specRing n ((shapeCount - 1) * n))"
    using ringValues_spec [OF n1, of "(shapeCount - 1) * n"] by (simp only: B_def off_def)
  moreover have "D = map real (specConnectors n shapeCount)"
    by (simp only: D_def sectionValues_spec)
  ultimately have vals: "A @ B @ D = ?vs"
    by (simp only: specIndices_def map_append)
  have "computeIndices positions shape =
        Inr (putAll (A @ B @ D) (\<lparr>bits = w, elems = replicate (2 * n * (shapeCount + 1)) 0\<rparr>, 0))"
    using n0
    by (simp add: computeIndices_def Let_def n_def [symmetric] q1 q2 alloc last w_def
          createTypedArray_def ringLoop_putAll sectionLoop_putAll A_def B_def D_def off_def
          del: of_nat_mult)
  also note vals
  also have "putAll ?vs (\<lparr>bits = w, elems = replicate (2 * n * (shapeCount + 1)) 0\<rparr>, 0) =
       (\<lparr>bits = w, elems = take 0 (replicate (2 * n * (shapeCount + 1)) 0) @ map (ToUint w) ?vs
            @ drop (0 + length ?vs) (replicate (2 * n * (shapeCount + 1)) 0)\<rparr>, 0 + length ?vs)"
    by (rule putAll_elems) (simp add: size)
  also have "\<dots> = (\<lparr>bits = w, elems = map (\<lambda>m. m mod 2 ^ w) (specIndices n shapeCount)\<rparr>,
                  2 * n * (shapeCount + 1))"
    by (simp add: size ToUint_nat)
  finally show ?thesis by (simp add: n_def w_def)
qed

text \<open>
  Under the invariant of the flattened vertex buffer (its length is three times a vertex
  count that is an exact multiple of the shape's length) every quotient of the source is an
  integer, and the geometry it returns is known in full: the index buffer holds the three
  groups, each index reduced modulo two to the element width that \<open>createTypedArray\<close> chose.
  For a buffer of fewer than \<open>2^32\<close> numbers, which every JavaScript array is, the indices
  fit the element width and the reduction changes nothing.
\<close>

lemma computeAttributes_exact:
  assumes len: "length positions = 3 * vertexCount"
    and vc: "vertexCount = shapeCount * length shape"
    and L: "1 \<le> length shape"
    and C: "1 \<le> shapeCount"
  shows "computeAttributes fromVertices positions shape =
           Inr \<lparr>geometry_position =
                  \<lparr>componentDatatype = DOUBLE, componentsPerAttribute = 3,
                   attr_values = positions\<rparr>,
                geometry_indices =
                  \<lparr>bits = indexBits (real vertexCount),
                   elems = map (\<lambda>m. m mod 2 ^ indexBits (real vertexCount))
                             (specIndices (length shape) shapeCount)\<rparr>,
                geometry_boundingSphere = fromVertices positions,
                geometry_primitiveType = LINES\<rparr>"
proof -
  have q1: "real (length positions) / 3 = real vertexCount"
    by (simp add: len)
  show ?thesis
    by (simp add: computeAttributes_def computeIndices_exact [OF assms] createTypedArrayFrom_def
        q1 ToUint_nat)
qed

lemma indices_fit:
  assumes len: "length positions = 3 * vertexCount"
    and vc: "vertexCount = shapeCount * length shape"
    and L: "1 \<le> length shape"
    and C: "1 \<le> shapeCount"
    and lim: "length positions < 2 ^ 32"
  shows "map (\<lambda>m. m mod 2 ^ indexBits (real vertexCount)) (specIndices (length shape) shapeCount)
         = specIndices (length shape) shapeCount"
proof (rule map_mod_fits)
  fix x assume "x \<in> set (specIndices (length shape) shapeCount)"
  with L C have "x < vertexCount"
    using specIndices_bound [of "length shape" shapeCount x] by (simp add: vc)
  with lim len show "x < 2 ^ indexBits (real vertexCount)"
    by (intro indexBits_fits) simp_all
qed

section \<open>\<open>pack\<close> and \<open>unpack\<close> in closed form\<close>

lemma writeSlots_Nil [simp]: "writeSlots array s [] = array"
  by (auto simp: writeSlots_def fun_eq_iff)

lemma writeSlots_single: "array(s \<mapsto> v) = writeSlots array s [v]"
  by (auto simp: writeSlots_def fun_eq_iff)

lemma writeSlots_append:
  "writeSlots (writeSlots array s vs) (s + length vs) ws = writeSlots array s (vs @ ws)"
  by (auto simp: writeSlots_def fun_eq_iff nth_append)

lemma Cartesian3_pack_writeSlots: "Cartesian3_pack p array s = writeSlots array s (coords3 p)"
  by (cases p) (auto simp: writeSlots_def fun_eq_iff nth_Cons split: nat.splits)

lemma Cartesian2_pack_writeSlots: "Cartesian2_pack p array s = writeSlots array s (coords2 p)"
  by (cases p) (auto simp: writeSlots_def fun_eq_iff nth_Cons split: nat.splits)

lemma length_coords3 [simp]: "length (coords3 p) = 3"
  by (cases p) simp

lemma length_coords2 [simp]: "length (coords2 p) = 2"
  by (cases p) simp

lemma length_concat_coords3 [simp]: "length (concat (map coords3 ps)) = 3 * length ps"
  by (induction ps) simp_all

lemma length_concat_coords2 [simp]: "length (concat (map coords2 ps)) = 2 * length ps"
  by (induction ps) simp_all

lemma packPositions_writeSlots:
  "packPositions i positions (array, s) =
     (writeSlots array s (concat (map coords3 (drop i positions))),
      s + 3 * (length positions - i))"
proof (induction "length positions - i" arbitrary: i array s)
  case 0
  then show ?case
    by (subst packPositions.simps) simp
next
  case (Suc d)
  then have lt: "i < length positions" by linarith
  then have dr: "drop i positions = positions ! i # drop (i + 1) positions"
    by (simp add: Cons_nth_drop_Suc)
  from Suc have d: "d = length positions - (i + 1)" by linarith
  have more: "3 + 3 * (length positions - (i + 1)) = 3 * (length positions - i)"
    using lt by linarith
  have "packPositions i positions (array, s) =
        packPositions (i + 1) positions (writeSlots array s (coords3 (positions ! i)), s + 3)"
    using lt
    by (subst packPositions.simps) (simp add: Cartesian3_pack_writeSlots Cartesian3_packedLength_def)
  also have "\<dots> =
        (writeSlots (writeSlots array s (coords3 (positions ! i))) (s + 3)
           (concat (map coords3 (drop (i + 1) positions))),
         s + 3 + 3 * (length positions - (i + 1)))"
    by (rule Suc.hyps(1) [OF d])
  also have "writeSlots (writeSlots array s (coords3 (positions ! i))) (s + 3)
           (concat (map coords3 (drop (i + 1) positions))) =
        writeSlots array s (concat (map coords3 (drop i positions)))"
    using writeSlots_append [of array s "coords3 (positions ! i)"] by (simp add: dr)
  finally show ?case
    using more by (simp add: add.assoc)
qed

lemma packShape_writeSlots:
  "packShape i shape (array, s) =
     (writeSlots array s (concat (map coords2 (drop i shape))),
      s + 2 * (length shape - i))"
proof (induction "length shape - i" arbitrary: i array s)
  case 0
  then show ?case
    by (subst packShape.simps) simp
next
  case (Suc d)
  then have lt: "i < length shape" by linarith
  then have dr: "drop i shape = shape ! i # drop (i + 1) shape"
    by (simp add: Cons_nth_drop_Suc)
  from Suc have d: "d = length shape - (i + 1)" by linarith
  have more: "2 + 2 * (length shape - (i + 1)) = 2 * (length shape - i)"
    using lt by linarith
  have "packShape i shape (array, s) =
        packShape (i + 1) shape (writeSlots array s (coords2 (shape ! i)), s + 2)"
    using lt
    by (subst packShape.simps) (simp add: Cartesian2_pack_writeSlots Cartesian2_packedLength_def)
  also have "\<dots> =
        (writeSlots (writeSlots array s (coords2 (shape ! i))) (s + 2)
           (concat (map coords2 (drop (i + 1) shape))),
         s + 2 + 2 * (length shape - (i + 1)))"
    by (rule Suc.hyps(1) [OF d])
  also have "writeSlots (writeSlots array s (coords2 (shape ! i))) (s + 2)
           (concat (map coords2 (drop (i + 1) shape))) =
        writeSlots array s (concat (map coords2 (drop i shape)))"
    using writeSlots_append [of array s "coords2 (shape ! i)"] by (simp add: dr)
  finally show ?case
    using more by (simp add: add.assoc)
qed

lemma Ellipsoid_pack_writeSlots:
  "Ellipsoid_pack lib v array s = writeSlots array s (surfaceSlots lib v)"
  by (auto simp: Ellipsoid_pack_def writeSlots_def surfaceSlots_def fun_eq_iff)

lemma length_surfaceSlots [simp]: "length (surfaceSlots lib v) = Ellipsoid_packedLength lib"
  by (simp add: surfaceSlots_def)

lemma writeSlots_then:
  "t = s + length vs \<Longrightarrow> writeSlots (writeSlots array s vs) t ws = writeSlots array s (vs @ ws)"
  by (simp add: writeSlots_append)

lemma pack_layout:
  "pack lib st (Some value) (Some array) startingIndex =
     Inr (writeSlots array (defaultValue startingIndex 0) (specLayout lib st value))"
proof -
  define s where "s = defaultValue startingIndex (0::nat)"
  define P where "P = concat (map coords3 (priv_positions value))"
  define S where "S = concat (map coords2 (priv_shape value))"
  define E where "E = surfaceSlots lib (ellipsoids st (priv_ellipsoid value))"
  define N where "N = length (priv_positions value)"
  define M where "M = length (priv_shape value)"
  have lP: "length P = 3 * N" and lS: "length S = 2 * M" and lE: "length E = Ellipsoid_packedLength lib"
    by (simp_all add: P_def S_def E_def N_def M_def)
  have "pack lib st (Some value) (Some array) startingIndex =
        Inr (writeSlots (writeSlots (writeSlots (writeSlots (writeSlots (writeSlots (writeSlots array
               s [real N])
               (s + 1) P)
               (s + 1 + 3 * N) [real M])
               (s + 1 + 3 * N + 1) S)
               (s + 1 + 3 * N + 1 + 2 * M) E)
               (s + 1 + 3 * N + 1 + 2 * M + Ellipsoid_packedLength lib) [priv_cornerType value])
               (s + 1 + 3 * N + 1 + 2 * M + Ellipsoid_packedLength lib + 1) [priv_granularity value])"
    by (simp add: pack_def Let_def packPositions_writeSlots packShape_writeSlots
        Ellipsoid_pack_writeSlots writeSlots_single s_def [symmetric] P_def S_def E_def N_def M_def)
  also have "\<dots> = Inr (writeSlots array s
        ([real N] @ P @ [real M] @ S @ E @ [priv_cornerType value] @ [priv_granularity value]))"
    by (simp add: writeSlots_then lP lS lE)
  also have "[real N] @ P @ [real M] @ S @ E @ [priv_cornerType value] @ [priv_granularity value]
      = specLayout lib st value"
    by (simp add: specLayout_def layout_def P_def S_def E_def N_def M_def)
  finally show ?thesis by (simp add: s_def)
qed

lemma length_specLayout:
  "length (specLayout lib st value) =
     4 + 3 * length (priv_positions value) + 2 * length (priv_shape value)
     + Ellipsoid_packedLength lib"
  by (simp add: specLayout_def layout_def)

lemma holds_writeSlots: "holds (writeSlots array s vs) s vs"
  by (simp add: holds_def writeSlots_def)

lemma holds_append:
  "holds array s (vs @ ws) \<longleftrightarrow> holds array s vs \<and> holds array (s + length vs) ws"
proof
  assume h: "holds array s (vs @ ws)"
  have "holds array s vs"
    unfolding holds_def
  proof (intro allI impI)
    fix j assume "j < length vs"
    with h show "array (s + j) = Some (vs ! j)"
      by (auto simp: holds_def nth_append dest: spec [where x = j])
  qed
  moreover have "holds array (s + length vs) ws"
    unfolding holds_def
  proof (intro allI impI)
    fix j assume "j < length ws"
    with h show "array (s + length vs + j) = Some (ws ! j)"
      by (auto simp: holds_def nth_append add.assoc dest: spec [where x = "length vs + j"])
  qed
  ultimately show "holds array s vs \<and> holds array (s + length vs) ws" ..
next
  assume h: "holds array s vs \<and> holds array (s + length vs) ws"
  show "holds array s (vs @ ws)"
    unfolding holds_def
  proof (intro allI impI)
    fix j assume j: "j < length (vs @ ws)"
    show "array (s + j) = Some ((vs @ ws) ! j)"
    proof (cases "j < length vs")
      case True
      with h show ?thesis by (simp add: holds_def nth_append)
    next
      case False
      then have eq: "s + j = s + length vs + (j - length vs)" by simp
      from False j have "j - length vs < length ws" by simp
      with h have "array (s + length vs + (j - length vs)) = Some (ws ! (j - length vs))"
        by (simp add: holds_def)
      with eq False show ?thesis
        by (simp add: nth_append)
    qed
  qed
qed

lemma holds_Cons:
  "holds array s (v # vs) \<longleftrightarrow> array s = Some v \<and> holds array (s + 1) vs"
  using holds_append [of array s "[v]" vs] by (simp add: holds_def)

lemma holds_Nil [simp]: "holds array s []"
  by (simp add: holds_def)

lemma andThen_Inr [simp]: "andThen (Inr v) f = f v"
  by (simp add: andThen_def)

lemma andThen_Inl [simp]: "andThen (Inl e) f = Inl e"
  by (simp add: andThen_def)

lemma readSlots_holds: "holds array s vs \<Longrightarrow> readSlots array s (length vs) = Inr vs"
proof (induction vs arbitrary: s)
  case Nil
  then show ?case by simp
next
  case (Cons v vs)
  then show ?case
    by (simp add: holds_Cons readSlot_def)
qed

lemma Cartesian3_unpack_holds:
  "holds array s (coords3 p) \<Longrightarrow> Cartesian3_unpack array s = Inr p"
  by (cases p) (simp add: holds_Cons Cartesian3_unpack_def readSlot_def add.assoc)

lemma Cartesian2_unpack_holds:
  "holds array s (coords2 p) \<Longrightarrow> Cartesian2_unpack array s = Inr p"
  by (cases p) (simp add: holds_Cons Cartesian2_unpack_def readSlot_def add.assoc)

lemma unpackPositions_holds:
  "holds array s (concat (map coords3 ps)) \<Longrightarrow>
   unpackPositions i (i + length ps) array (acc, s) = Inr (acc @ ps, s + 3 * length ps)"
proof (induction ps arbitrary: i acc s)
  case Nil
  then show ?case
    by (subst unpackPositions.simps) simp
next
  case (Cons p ps)
  from Cons.prems have p: "holds array s (coords3 p)"
    and rest: "holds array (s + 3) (concat (map coords3 ps))"
    by (simp_all add: holds_append)
  have "unpackPositions i (i + length (p # ps)) array (acc, s) =
        unpackPositions (i + 1) (i + 1 + length ps) array (acc @ [p], s + 3)"
    by (subst unpackPositions.simps)
      (simp add: Cartesian3_unpack_holds [OF p] Cartesian3_packedLength_def)
  also have "\<dots> = Inr ((acc @ [p]) @ ps, s + 3 + 3 * length ps)"
    by (rule Cons.IH [OF rest])
  finally show ?case by simp
qed

lemma unpackShape_holds:
  "holds array s (concat (map coords2 ps)) \<Longrightarrow>
   unpackShape i (i + length ps) array (acc, s) = Inr (acc @ ps, s + 2 * length ps)"
proof (induction ps arbitrary: i acc s)
  case Nil
  then show ?case
    by (subst unpackShape.simps) simp
next
  case (Cons p ps)
  from Cons.prems have p: "holds array s (coords2 p)"
    and rest: "holds array (s + 2) (concat (map coords2 ps))"
    by (simp_all add: holds_append)
  have "unpackShape i (i + length (p # ps)) array (acc, s) =
        unpackShape (i + 1) (i + 1 + length ps) array (acc @ [p], s + 2)"
    by (subst unpackShape.simps)
      (simp add: Cartesian2_unpack_holds [OF p] Cartesian2_packedLength_def)
  also have "\<dots> = Inr ((acc @ [p]) @ ps, s + 2 + 2 * length ps)"
    by (rule Cons.IH [OF rest])
  finally show ?case by simp
qed

lemma newArray_length: "n < 2 ^ 32 \<Longrightarrow> newArray (real n) = Inr n"
proof -
  assume "n < 2 ^ 32"
  then have "real n < 2 ^ 32"
    by (metis of_nat_less_iff of_nat_numeral of_nat_power)
  then show ?thesis by (simp add: newArray_def)
qed

lemma holds_layout:
  assumes "holds array s (layout ps sh es c g)"
  shows "readSlot array s = Inr (real (length ps))"
    and "holds array (s + 1) (concat (map coords3 ps))"
    and "readSlot array (s + 1 + 3 * length ps) = Inr (real (length sh))"
    and "holds array (s + 1 + 3 * length ps + 1) (concat (map coords2 sh))"
    and "holds array (s + 1 + 3 * length ps + 1 + 2 * length sh) es"
    and "readSlot array (s + 1 + 3 * length ps + 1 + 2 * length sh + length es) = Inr c"
    and "readSlot array (s + 1 + 3 * length ps + 1 + 2 * length sh + length es + 1) = Inr g"
  using assms
  by (simp_all add: layout_def holds_append holds_Cons readSlot_def add.assoc)

lemma unpack_prefix:
  assumes h: "holds array (defaultValue startingIndex 0) (layout ps sh es c g)"
    and es: "length es = Ellipsoid_packedLength lib"
    and ps: "length ps < 2 ^ 32"
    and sh: "length sh < 2 ^ 32"
  shows "unpack lib st (Some array) startingIndex result =
     (let st = st\<lparr>ellipsoids := (ellipsoids st)(scratchEllipsoid st := Ellipsoid_fromSlots lib es)\<rparr>
      in case result of
         None \<Rightarrow>
           let st = st\<lparr>scratchOptions := (scratchOptions st)
                        \<lparr>opt_polylinePositions := Some ps,
                         opt_shapePositions := Some sh,
                         opt_cornerType := Some c,
                         opt_granularity := Some g\<rparr>\<rparr>
           in new_PolylineVolumeOutlineGeometry lib st (Some (scratchOptions st))
       | Some result \<Rightarrow>
           let (e, st) = Ellipsoid_clone st (scratchEllipsoid st) (Some (priv_ellipsoid result))
           in Inr (result\<lparr>priv_positions := ps,
                          priv_shape := sh,
                          priv_ellipsoid := e,
                          priv_cornerType := c,
                          priv_granularity := g\<rparr>, st))"
proof -
  define s where "s = defaultValue startingIndex (0::nat)"
  note parts = holds_layout [OF h [folded s_def]]
  have p: "unpackPositions 0 (length ps) array ([], s + 1) = Inr (ps, s + 1 + 3 * length ps)"
    using unpackPositions_holds [OF parts(2), of 0 "[]"] by simp
  have q: "unpackShape 0 (length sh) array ([], s + 1 + 3 * length ps + 1) =
             Inr (sh, s + 1 + 3 * length ps + 1 + 2 * length sh)"
    using unpackShape_holds [OF parts(4), of 0 "[]"] by simp
  have e: "readSlots array (s + 1 + 3 * length ps + 1 + 2 * length sh) (Ellipsoid_packedLength lib)
             = Inr es"
    using readSlots_holds [OF parts(5)] by (simp add: es)
  show ?thesis
    using parts(1,3) parts(6,7) [unfolded es] newArray_length [OF ps] newArray_length [OF sh] p q e
    unfolding unpack_def s_def [symmetric] Let_def
    by (cases result) (simp_all add: Ellipsoid_unpack_def)
qed

lemma construct_defined:
  assumes "opt_polylinePositions options = Some path"
    and "opt_shapePositions options = Some shape"
  shows "new_PolylineVolumeOutlineGeometry lib st (Some options) =
     Inr (\<lparr>priv_positions = path,
           priv_shape = shape,
           priv_ellipsoid = nextRef st,
           priv_cornerType = defaultValue (opt_cornerType options) (CornerType_ROUNDED lib),
           priv_granularity = defaultValue (opt_granularity options) (RADIANS_PER_DEGREE lib),
           packedLength = 1 + length path * 3 + (1 + length shape * 2) + Ellipsoid_packedLength lib + 2\<rparr>,
          st\<lparr>ellipsoids := (ellipsoids st)
                 (nextRef st := (case opt_ellipsoid options of
                                   None \<Rightarrow> Ellipsoid_WGS84 lib
                                 | Some r \<Rightarrow> ellipsoids st r)),
             nextRef := nextRef st + 1\<rparr>)"
  using assms
  by (cases "opt_ellipsoid options")
    (simp_all add: new_PolylineVolumeOutlineGeometry_def defaultValue_def Ellipsoid_new_def
      Ellipsoid_clone_def Cartesian3_packedLength_def Cartesian2_packedLength_def)

lemma unpack_layout_fresh:
  assumes h: "holds array (defaultValue startingIndex 0) (layout ps sh es c g)"
    and es: "length es = Ellipsoid_packedLength lib"
    and ps: "length ps < 2 ^ 32"
    and sh: "length sh < 2 ^ 32"
    and inv: "moduleInvariant st"
  shows "unpack lib st (Some array) startingIndex None =
     Inr (\<lparr>priv_positions = ps,
           priv_shape = sh,
           priv_ellipsoid = nextRef st,
           priv_cornerType = c,
           priv_granularity = g,
           packedLength = 1 + length ps * 3 + (1 + length sh * 2) + Ellipsoid_packedLength lib + 2\<rparr>,
          st\<lparr>ellipsoids := (ellipsoids st)
                 (scratchEllipsoid st := Ellipsoid_fromSlots lib es,
                  nextRef st := Ellipsoid_fromSlots lib es),
             nextRef := nextRef st + 1,
             scratchOptions := (scratchOptions st)
               \<lparr>opt_polylinePositions := Some ps,
                opt_shapePositions := Some sh,
                opt_cornerType := Some c,
                opt_granularity := Some g\<rparr>\<rparr>)"
proof -
  define st1 where "st1 = st\<lparr>ellipsoids := (ellipsoids st)(scratchEllipsoid st := Ellipsoid_fromSlots lib es),
      scratchOptions := (scratchOptions st)
               \<lparr>opt_polylinePositions := Some ps,
                opt_shapePositions := Some sh,
                opt_cornerType := Some c,
                opt_granularity := Some g\<rparr>\<rparr>"
  have "unpack lib st (Some array) startingIndex None =
        new_PolylineVolumeOutlineGeometry lib st1 (Some (scratchOptions st1))"
    by (simp add: unpack_prefix [OF h es ps sh] Let_def st1_def)
  also have "\<dots> = Inr (\<lparr>priv_positions = ps,
           priv_shape = sh,
           priv_ellipsoid = nextRef st1,
           priv_cornerType = defaultValue (opt_cornerType (scratchOptions st1)) (CornerType_ROUNDED lib),
           priv_granularity = defaultValue (opt_granularity (scratchOptions st1)) (RADIANS_PER_DEGREE lib),
           packedLength = 1 + length ps * 3 + (1 + length sh * 2) + Ellipsoid_packedLength lib + 2\<rparr>,
          st1\<lparr>ellipsoids := (ellipsoids st1)
                 (nextRef st1 := (case opt_ellipsoid (scratchOptions st1) of
                                   None \<Rightarrow> Ellipsoid_WGS84 lib
                                 | Some r \<Rightarrow> ellipsoids st1 r)),
             nextRef := nextRef st1 + 1\<rparr>)"
    by (rule construct_defined) (simp_all add: st1_def)
  finally show ?thesis
    using inv by (simp add: st1_def moduleInvariant_def defaultValue_def)
qed

lemma unpack_layout_into:
  assumes h: "holds array (defaultValue startingIndex 0) (layout ps sh es c g)"
    and es: "length es = Ellipsoid_packedLength lib"
    and ps: "length ps < 2 ^ 32"
    and sh: "length sh < 2 ^ 32"
  shows "unpack lib st (Some array) startingIndex (Some result) =
     Inr (result\<lparr>priv_positions := ps,
                 priv_shape := sh,
                 priv_cornerType := c,
                 priv_granularity := g\<rparr>,
          st\<lparr>ellipsoids := (ellipsoids st)
                 (scratchEllipsoid st := Ellipsoid_fromSlots lib es,
                  priv_ellipsoid result := Ellipsoid_fromSlots lib es)\<rparr>)"
  by (simp add: unpack_prefix [OF h es ps sh] Let_def Ellipsoid_clone_def)

lemma holds_specLayout:
  "holds (writeSlots array s (specLayout lib st value)) s
     (layout (priv_positions value) (priv_shape value)
        (surfaceSlots lib (ellipsoids st (priv_ellipsoid value)))
        (priv_cornerType value) (priv_granularity value))"
  using holds_writeSlots [of array s "specLayout lib st value"] by (simp add: specLayout_def)

lemma unpack_packed_fresh:
  assumes rt: "surfaceRoundTrip lib"
    and inv: "moduleInvariant st2"
    and ps: "length (priv_positions value) < 2 ^ 32"
    and sh: "length (priv_shape value) < 2 ^ 32"
  shows "unpack lib st2
           (Some (writeSlots array (defaultValue startingIndex 0) (specLayout lib st value)))
           startingIndex None =
     Inr (\<lparr>priv_positions = priv_positions value,
           priv_shape = priv_shape value,
           priv_ellipsoid = nextRef st2,
           priv_cornerType = priv_cornerType value,
           priv_granularity = priv_granularity value,
           packedLength = 1 + length (priv_positions value) * 3
             + (1 + length (priv_shape value) * 2) + Ellipsoid_packedLength lib + 2\<rparr>,
          st2\<lparr>ellipsoids := (ellipsoids st2)
                 (scratchEllipsoid st2 := ellipsoids st (priv_ellipsoid value),
                  nextRef st2 := ellipsoids st (priv_ellipsoid value)),
             nextRef := nextRef st2 + 1,
             scratchOptions := (scratchOptions st2)
               \<lparr>opt_polylinePositions := Some (priv_positions value),
                opt_shapePositions := Some (priv_shape value),
                opt_cornerType := Some (priv_cornerType value),
                opt_granularity := Some (priv_granularity value)\<rparr>\<rparr>)"
proof -
  have "Ellipsoid_fromSlots lib (surfaceSlots lib (ellipsoids st (priv_ellipsoid value)))
        = ellipsoids st (priv_ellipsoid value)"
    using rt by (simp add: surfaceRoundTrip_def)
  then show ?thesis
    by (simp add: unpack_layout_fresh [OF holds_specLayout length_surfaceSlots ps sh inv])
qed

lemma unpack_packed_into:
  assumes rt: "surfaceRoundTrip lib"
    and ps: "length (priv_positions value) < 2 ^ 32"
    and sh: "length (priv_shape value) < 2 ^ 32"
  shows "unpack lib st2
           (Some (writeSlots array (defaultValue startingIndex 0) (specLayout lib st value)))
           startingIndex (Some result) =
     Inr (result\<lparr>priv_positions := priv_positions value,
                 priv_shape := priv_shape value,
                 priv_cornerType := priv_cornerType value,
                 priv_granularity := priv_granularity value\<rparr>,
          st2\<lparr>ellipsoids := (ellipsoids st2)
                 (scratchEllipsoid st2 := ellipsoids st (priv_ellipsoid value),
                  priv_ellipsoid result := ellipsoids st (priv_ellipsoid value))\<rparr>)"
proof -
  have "Ellipsoid_fromSlots lib (surfaceSlots lib (ellipsoids st (priv_ellipsoid value)))
        = ellipsoids st (priv_ellipsoid value)"
    using rt by (simp add: surfaceRoundTrip_def)
  then show ?thesis
    by (simp add: unpack_layout_into [OF holds_specLayout length_surfaceSlots ps sh])
qed

lemma exampleLibrary_round_trip: "surfaceRoundTrip exampleLibrary"
proof -
  have "[0..<3] = [0, 1, 2]" by code_simp
  then have "radiiFromSlots (map (radiiSlot v) [0..<3]) = v" for v
    by (cases v) simp
  then show ?thesis
    by (simp add: surfaceRoundTrip_def surfaceSlots_def exampleLibrary_def)
qed

lemma moduleInit_invariant: "moduleInvariant (moduleInit lib)"
  by (simp add: moduleInvariant_def moduleInit_def)

lemma exampleStore_invariant: "moduleInvariant exampleStore"
  by (simp add: moduleInvariant_def exampleStore_def)

section \<open>The signed area under reversal, and the results of \<open>createGeometry\<close>\<close>

lemma cross2_swap: "cross2 a b = - cross2 b a"
  by (cases a; cases b) simp

lemma edgeSum_snoc:
  "edgeSum (vs @ [a]) = edgeSum vs + (if vs = [] then 0 else cross2 (last vs) a)"
  by (induction vs rule: edgeSum.induct) simp_all

lemma edgeSum_Cons:
  "edgeSum (a # vs) = (if vs = [] then 0 else cross2 a (hd vs)) + edgeSum vs"
  by (cases vs) simp_all

lemma edgeSum_rev: "edgeSum (rev vs) = - edgeSum vs"
proof (induction vs)
  case Nil
  then show ?case by simp
next
  case (Cons a vs)
  show ?case
  proof (cases "vs = []")
    case True
    then show ?thesis by simp
  next
    case False
    then have "last (rev vs) = hd vs" by (simp add: last_rev)
    with False Cons.IH show ?thesis
      using cross2_swap [of a "hd vs"] by (simp add: edgeSum_snoc edgeSum_Cons)
  qed
qed

lemma computeArea2D_rev: "computeArea2D (rev positions) = - computeArea2D positions"
proof (cases "positions = []")
  case True
  then show ?thesis by (simp add: computeArea2D_def)
next
  case False
  then show ?thesis
    using cross2_swap [of "hd positions" "last positions"]
    by (simp add: computeArea2D_def edgeSum_rev last_rev hd_rev field_simps)
qed

lemma computeAttributes_returns:
  "shape \<noteq> [] \<Longrightarrow> \<exists>geometry. computeAttributes fromVertices positions shape = Inr geometry"
  by (simp add: computeAttributes_def computeIndices_def Let_def split: prod.splits)

lemma sweepOutline_returns:
  "shape2D \<noteq> [] \<Longrightarrow> \<exists>r. sweepOutline ext st g cleanPositions shape2D = Inr r"
proof -
  assume "shape2D \<noteq> []"
  then obtain geometry where
    "computeAttributes (BoundingSphere_fromVertices ext)
       (computePositions ext cleanPositions shape2D (BoundingRectangle_fromPoints ext shape2D) g
          (ellipsoids st (priv_ellipsoid g)) False) shape2D = Inr geometry"
    using computeAttributes_returns by blast
  then show ?thesis
    by (simp add: sweepOutline_def Let_def andThen_def)
qed

lemma windingFix_Nil [simp]: "windingFix shape2D = [] \<longleftrightarrow> shape2D = []"
  by (simp add: windingFix_def)

section \<open>Claims on the topology builder\<close>

text \<open>
  Claim C1. For a flattened vertex buffer of \<open>vertexCount * 3\<close> numbers, with \<open>vertexCount\<close>
  an exact multiple of the shape's length, a shape of at least three points and at least two
  cross-sections, the index buffer of the geometry that \<open>computeAttributes\<close> returns is, in
  order, the start ring over the first cross-section, the end ring over the last one and the
  longitudinal connectors between consecutive cross-sections, and nothing else: the
  intermediate cross-sections are not closed into rings. The buffer holds fewer than
  \<open>2^32\<close> numbers, as every JavaScript array does.
\<close>

theorem topology_three_groups:
  assumes "length positions = 3 * vertexCount"
    and "vertexCount = shapeCount * length shape"
    and "3 \<le> length shape"
    and "2 \<le> shapeCount"
    and "length positions < 2 ^ 32"
  shows "\<exists>g. computeAttributes fromVertices positions shape = Inr g \<and>
           elems (geometry_indices g) =
             specRing (length shape) 0
             @ specRing (length shape) ((shapeCount - 1) * length shape)
             @ specConnectors (length shape) shapeCount"
proof -
  from assms(3,4) have L: "1 \<le> length shape" and C: "1 \<le> shapeCount" by simp_all
  show ?thesis
    using indices_fit [OF assms(1,2) L C assms(5)]
    by (simp add: computeAttributes_exact [OF assms(1,2) L C] specIndices_def)
qed

theorem topology_three_groups_witness:
  "\<exists>g. computeAttributes (\<lambda>vs. ()) (replicate 18 0) [(0::int, 0::int), (1, 0), (0, 1)] = Inr g \<and>
     elems (geometry_indices g) = [0, 1, 1, 2, 2, 0, 3, 4, 4, 5, 5, 3, 0, 3, 1, 4, 2, 5]"
proof -
  have "length (replicate 18 (0::real)) = 3 * 6"
    and "(6::nat) = 2 * length [(0::int, 0::int), (1, 0), (0, 1)]"
    and "3 \<le> length [(0::int, 0::int), (1, 0), (0, 1)]"
    and "(2::nat) \<le> 2"
    and "length (replicate 18 (0::real)) < 2 ^ 32"
    by simp_all
  note inst = topology_three_groups [OF this, of "\<lambda>vs. ()"]
  have groups:
    "specRing (length [(0::int, 0::int), (1, 0), (0, 1)]) 0
     @ specRing (length [(0::int, 0::int), (1, 0), (0, 1)])
         ((2 - 1) * length [(0::int, 0::int), (1, 0), (0, 1)])
     @ specConnectors (length [(0::int, 0::int), (1, 0), (0, 1)]) 2
     = [0, 1, 1, 2, 2, 0, 3, 4, 4, 5, 5, 3, 0, 3, 1, 4, 2, 5]"
    by code_simp
  from inst show ?thesis
    unfolding groups .
qed

text \<open>
  Claim C3. For a shape of length \<open>L \<ge> 3\<close> and a vertex buffer of \<open>C \<ge> 2\<close> cross-sections, the
  index buffer has exactly \<open>2 * L * (C + 1)\<close> entries, the write index after the three
  groups equals the allocated length, and every allocated entry has been written: entry
  \<open>k\<close> holds the \<open>k\<close>-th index of the three groups, as the element width of the buffer
  stores it (reduced modulo two to that width, which leaves the index of a buffer of fewer
  than \<open>2^32\<close> numbers as it is). This holds of the buffer the loops fill and of the
  buffer of the returned geometry.
\<close>

theorem index_count_formula:
  assumes "length positions = 3 * vertexCount"
    and "vertexCount = shapeCount * length shape"
    and "3 \<le> length shape"
    and "2 \<le> shapeCount"
  shows "(\<exists>indices index. computeIndices positions shape = Inr (indices, index) \<and>
            length (elems indices) = 2 * length shape * (shapeCount + 1) \<and>
            index = length (elems indices) \<and>
            elems indices =
              map (\<lambda>m. m mod 2 ^ indexBits (real vertexCount))
                (specIndices (length shape) shapeCount)) \<and>
         (\<exists>g. computeAttributes fromVertices positions shape = Inr g \<and>
            length (elems (geometry_indices g)) = 2 * length shape * (shapeCount + 1) \<and>
            elems (geometry_indices g) =
              map (\<lambda>m. m mod 2 ^ indexBits (real vertexCount))
                (specIndices (length shape) shapeCount))"
proof -
  from assms(3,4) have L: "1 \<le> length shape" and C: "1 \<le> shapeCount" by simp_all
  show ?thesis
    by (simp add: computeIndices_exact [OF assms(1,2) L C]
        computeAttributes_exact [OF assms(1,2) L C] length_specIndices [OF L C])
qed

theorem index_count_formula_witness:
  "(\<exists>indices index.
      computeIndices (replicate 18 0) [(0::int, 0::int), (1, 0), (0, 1)] = Inr (indices, index) \<and>
      length (elems indices) = 18 \<and> index = length (elems indices) \<and>
      elems indices = [0, 1, 1, 2, 2, 0, 3, 4, 4, 5, 5, 3, 0, 3, 1, 4, 2, 5]) \<and>
   (\<exists>g. computeAttributes (\<lambda>vs. ()) (replicate 18 0) [(0::int, 0::int), (1, 0), (0, 1)] = Inr g \<and>
      length (elems (geometry_indices g)) = 18 \<and>
      elems (geometry_indices g) = [0, 1, 1, 2, 2, 0, 3, 4, 4, 5, 5, 3, 0, 3, 1, 4, 2, 5])"
proof -
  have "length (replicate 18 (0::real)) = 3 * 6"
    and "(6::nat) = 2 * length [(0::int, 0::int), (1, 0), (0, 1)]"
    and "3 \<le> length [(0::int, 0::int), (1, 0), (0, 1)]"
    and "(2::nat) \<le> 2"
    by simp_all
  note inst = index_count_formula [OF this, of "\<lambda>vs. ()"]
  have groups:
    "specIndices (length [(0::int, 0::int), (1, 0), (0, 1)]) 2
     = [0, 1, 1, 2, 2, 0, 3, 4, 4, 5, 5, 3, 0, 3, 1, 4, 2, 5]"
    by code_simp
  have width: "indexBits (real 6) = 16"
    by (simp add: indexBits_def)
  from inst show ?thesis
    unfolding width groups by simp
qed

text \<open>
  Claim C7. Under the same conditions every entry of the index buffer is a natural number
  strictly below \<open>vertexCount\<close>.
\<close>

theorem index_range:
  assumes "length positions = 3 * vertexCount"
    and "vertexCount = shapeCount * length shape"
    and "3 \<le> length shape"
    and "2 \<le> shapeCount"
  shows "\<exists>g. computeAttributes fromVertices positions shape = Inr g \<and>
           (\<forall>x \<in> set (elems (geometry_indices g)). x < vertexCount)"
proof -
  from assms(3,4) have L: "1 \<le> length shape" and C: "1 \<le> shapeCount" by simp_all
  have "m mod 2 ^ indexBits (real vertexCount) < vertexCount"
    if "m \<in> set (specIndices (length shape) shapeCount)" for m
  proof -
    have "m < vertexCount"
      using specIndices_bound [OF L C that] by (simp add: assms(2))
    moreover have "m mod 2 ^ indexBits (real vertexCount) \<le> m"
      by (rule mod_less_eq_dividend)
    ultimately show ?thesis by linarith
  qed
  then show ?thesis
    by (auto simp: computeAttributes_exact [OF assms(1,2) L C])
qed

theorem index_range_witness:
  "\<exists>g. computeAttributes (\<lambda>vs. ()) (replicate 18 0) [(0::int, 0::int), (1, 0), (0, 1)] = Inr g \<and>
     (\<forall>x \<in> set (elems (geometry_indices g)). x < 6)"
proof -
  have "length (replicate 18 (0::real)) = 3 * 6"
    and "(6::nat) = 2 * length [(0::int, 0::int), (1, 0), (0, 1)]"
    and "3 \<le> length [(0::int, 0::int), (1, 0), (0, 1)]"
    and "(2::nat) \<le> 2"
    by simp_all
  from index_range [OF this, of "\<lambda>vs. ()"] show ?thesis
    by simp
qed

section \<open>Claims on the serializer\<close>

text \<open>
  Claim C8. A description constructed from a path of \<open>pathLen\<close> points and a shape of
  \<open>shapeLen\<close> points has the \<open>packedLength\<close>
  \<open>1 + pathLen * 3 + 1 + shapeLen * 2 + Ellipsoid.packedLength + 2\<close>, which the constructor
  computes and stores.
\<close>

theorem packedLength_at_construction:
  assumes "opt_polylinePositions options = Some path"
    and "opt_shapePositions options = Some shape"
  shows "\<exists>g st'. new_PolylineVolumeOutlineGeometry lib st (Some options) = Inr (g, st') \<and>
           priv_positions g = path \<and> priv_shape g = shape \<and>
           packedLength g =
             1 + length path * 3 + 1 + length shape * 2 + Ellipsoid_packedLength lib + 2"
  by (simp add: construct_defined [OF assms])

theorem packedLength_at_construction_witness:
  "\<exists>g st'. new_PolylineVolumeOutlineGeometry exampleLibrary exampleStore
              (Some exampleHexagonOptions) = Inr (g, st') \<and>
           length (priv_positions g) = 2 \<and> length (priv_shape g) = 6 \<and> packedLength g = 25"
proof -
  have "opt_polylinePositions exampleHexagonOptions = Some [Cartesian3 0 0 0, Cartesian3 0 0 10]"
    and "opt_shapePositions exampleHexagonOptions =
        Some [Cartesian2 2 0, Cartesian2 1 2, Cartesian2 (- 1) 2,
              Cartesian2 (- 2) 0, Cartesian2 (- 1) (- 2), Cartesian2 1 (- 2)]"
    by (simp_all add: exampleHexagonOptions_def)
  from packedLength_at_construction [OF this, of exampleLibrary exampleStore]
  show ?thesis
    by (auto simp: exampleLibrary_def)
qed

text \<open>
  Claim C4, amended. For a description with \<open>N\<close> path points and \<open>M\<close> shape points, \<open>pack\<close>
  writes exactly the consecutive slots from the starting index on that the layout of
  section 6 lists, and leaves every other slot as it was: the path count, \<open>3 * N\<close> path
  coordinates, the shape count, \<open>2 * M\<close> shape coordinates, the \<open>K\<close> slots of the reference
  surface, the corner style and the granularity. These are \<open>4 + 3 * N + 2 * M + K\<close> slots
  (the \<open>packedLength\<close> of the constructor), not \<open>2 + 3 * N + 2 * M + K\<close>.
\<close>

theorem pack_layout_slots:
  "pack lib st (Some value) (Some array) startingIndex =
     Inr (writeSlots array (defaultValue startingIndex 0) (specLayout lib st value)) \<and>
   length (specLayout lib st value) =
     4 + 3 * length (priv_positions value) + 2 * length (priv_shape value)
     + Ellipsoid_packedLength lib"
  by (simp add: pack_layout length_specLayout)

theorem pack_layout_slots_witness:
  "pack exampleLibrary exampleStore (Some exampleDescription) (Some Map.empty) (Some 5) =
     Inr (writeSlots Map.empty 5
            [2, 0, 0, 0, 10, 0, 0, 3, 0, 0, 0, 1, 1, 0, 3, 2, 1, 1, 1 / 2]) \<and>
   length (specLayout exampleLibrary exampleStore exampleDescription) = 19"
proof -
  have "[0..<3] = [0, 1, 2]" by code_simp
  then have "specLayout exampleLibrary exampleStore exampleDescription =
        [2, 0, 0, 0, 10, 0, 0, 3, 0, 0, 0, 1, 1, 0, 3, 2, 1, 1, 1 / 2]"
    by (simp add: specLayout_def layout_def surfaceSlots_def exampleLibrary_def exampleStore_def
        exampleDescription_def)
  with pack_layout_slots [of exampleLibrary exampleStore exampleDescription Map.empty "Some 5"]
  show ?thesis
    by (simp add: defaultValue_def)
qed

text \<open>
  The count of the specification, \<open>2 + 3 * N + 2 * M + K\<close>, leaves out two of the four
  single slots. For a path of two points, a shape of three and \<open>K = 3\<close> it is 17, yet
  \<open>pack\<close>, starting at slot 0 of an empty array, also writes the slots 17 and 18 (the
  corner style and the granularity).
\<close>

theorem pack_slot_count_counterexample:
  "2 + 3 * length (priv_positions exampleDescription)
     + 2 * length (priv_shape exampleDescription) + Ellipsoid_packedLength exampleLibrary = 17 \<and>
   slotAfter (pack exampleLibrary exampleStore (Some exampleDescription) (Some Map.empty) (Some 0)) 17
     = Some 1 \<and>
   slotAfter (pack exampleLibrary exampleStore (Some exampleDescription) (Some Map.empty) (Some 0)) 18
     = Some (1 / 2)"
proof -
  have "[0..<3] = [0, 1, 2]" by code_simp
  then have "specLayout exampleLibrary exampleStore exampleDescription =
        [2, 0, 0, 0, 10, 0, 0, 3, 0, 0, 0, 1, 1, 0, 3, 2, 1, 1, 1 / 2]"
    by (simp add: specLayout_def layout_def surfaceSlots_def exampleLibrary_def exampleStore_def
        exampleDescription_def)
  then show ?thesis
    by (simp add: pack_layout slotAfter_def writeSlots_def defaultValue_def)
      (simp add: exampleDescription_def exampleLibrary_def)
qed

text \<open>
  Claim C2. When the library's own encoding of a reference surface round-trips,
  unpacking (without a result object) the array that \<open>pack\<close> produced yields a description
  with the same path points, the same shape points, a reference surface of the same value,
  the same corner style and the same granularity; packing it again reproduces the array.
  The bounds on the two lengths hold of every JavaScript array.
\<close>

theorem pack_unpack_round_trip:
  assumes "surfaceRoundTrip lib"
    and "moduleInvariant st"
    and "length (priv_positions value) < 2 ^ 32"
    and "length (priv_shape value) < 2 ^ 32"
  shows "\<exists>packed result st'.
           pack lib st (Some value) (Some array) startingIndex = Inr packed \<and>
           unpack lib st (Some packed) startingIndex None = Inr (result, st') \<and>
           priv_positions result = priv_positions value \<and>
           priv_shape result = priv_shape value \<and>
           ellipsoids st' (priv_ellipsoid result) = ellipsoids st (priv_ellipsoid value) \<and>
           priv_cornerType result = priv_cornerType value \<and>
           priv_granularity result = priv_granularity value \<and>
           pack lib st' (Some result) (Some array) startingIndex = Inr packed"
proof -
  define P where "P = writeSlots array (defaultValue startingIndex 0) (specLayout lib st value)"
  define R where "R =
    \<lparr>priv_positions = priv_positions value,
     priv_shape = priv_shape value,
     priv_ellipsoid = nextRef st,
     priv_cornerType = priv_cornerType value,
     priv_granularity = priv_granularity value,
     packedLength = 1 + length (priv_positions value) * 3
       + (1 + length (priv_shape value) * 2) + Ellipsoid_packedLength lib + 2\<rparr>"
  define S where "S =
    st\<lparr>ellipsoids := (ellipsoids st)
          (scratchEllipsoid st := ellipsoids st (priv_ellipsoid value),
           nextRef st := ellipsoids st (priv_ellipsoid value)),
       nextRef := nextRef st + 1,
       scratchOptions := (scratchOptions st)
         \<lparr>opt_polylinePositions := Some (priv_positions value),
          opt_shapePositions := Some (priv_shape value),
          opt_cornerType := Some (priv_cornerType value),
          opt_granularity := Some (priv_granularity value)\<rparr>\<rparr>"
  have p: "pack lib st (Some value) (Some array) startingIndex = Inr P"
    by (simp add: pack_layout P_def)
  have u: "unpack lib st (Some P) startingIndex None = Inr (R, S)"
    unfolding P_def R_def S_def by (rule unpack_packed_fresh [OF assms])
  have "specLayout lib S R = specLayout lib st value"
    by (simp add: specLayout_def R_def S_def)
  then have again: "pack lib S (Some R) (Some array) startingIndex = Inr P"
    by (simp add: pack_layout P_def)
  have fields: "priv_positions R = priv_positions value" "priv_shape R = priv_shape value"
    "ellipsoids S (priv_ellipsoid R) = ellipsoids st (priv_ellipsoid value)"
    "priv_cornerType R = priv_cornerType value" "priv_granularity R = priv_granularity value"
    by (simp_all add: R_def S_def)
  from p u again fields show ?thesis
    by simp
qed

theorem pack_unpack_round_trip_witness:
  "\<exists>packed result st'.
     pack exampleLibrary exampleStore (Some exampleDescription) (Some Map.empty) (Some 0)
       = Inr packed \<and>
     unpack exampleLibrary exampleStore (Some packed) (Some 0) None = Inr (result, st') \<and>
     priv_positions result = [Cartesian3 0 0 0, Cartesian3 10 0 0] \<and>
     priv_shape result = [Cartesian2 0 0, Cartesian2 0 1, Cartesian2 1 0] \<and>
     ellipsoids st' (priv_ellipsoid result) = Cartesian3 3 2 1 \<and>
     priv_cornerType result = 1 \<and>
     priv_granularity result = 1 / 2 \<and>
     pack exampleLibrary st' (Some result) (Some Map.empty) (Some 0) = Inr packed"
proof -
  have "length (priv_positions exampleDescription) < 2 ^ 32"
    and "length (priv_shape exampleDescription) < 2 ^ 32"
    by (simp_all add: exampleDescription_def)
  from pack_unpack_round_trip [OF exampleLibrary_round_trip exampleStore_invariant this,
      of Map.empty "Some 0"]
  show ?thesis
    by (simp add: exampleDescription_def exampleStore_def)
qed

text \<open>
  Claim C9, amended. \<open>unpack\<close> with a result object overwrites the path, the shape, the
  corner style and the granularity of the result with the decoded values, copies the
  decoded reference surface into the result's own surface object, returns the result and
  leaves its \<open>packedLength\<close> as it was. Consequently, when \<open>3 * N + 2 * M\<close> of the decoded
  lengths differs from that of the lengths the result was constructed with, the returned
  \<open>packedLength\<close> is not the number of slots needed to pack the returned description.
\<close>

theorem unpack_into_result:
  assumes "surfaceRoundTrip lib"
    and "length (priv_positions value) < 2 ^ 32"
    and "length (priv_shape value) < 2 ^ 32"
  shows "\<exists>packed result' st'.
           pack lib st (Some value) (Some array) startingIndex = Inr packed \<and>
           unpack lib st (Some packed) startingIndex (Some result) = Inr (result', st') \<and>
           priv_positions result' = priv_positions value \<and>
           priv_shape result' = priv_shape value \<and>
           priv_ellipsoid result' = priv_ellipsoid result \<and>
           ellipsoids st' (priv_ellipsoid result') = ellipsoids st (priv_ellipsoid value) \<and>
           priv_cornerType result' = priv_cornerType value \<and>
           priv_granularity result' = priv_granularity value \<and>
           packedLength result' = packedLength result \<and>
           (packedLength result =
              1 + pathLen * 3 + 1 + shapeLen * 2 + Ellipsoid_packedLength lib + 2 \<and>
            3 * length (priv_positions value) + 2 * length (priv_shape value)
              \<noteq> 3 * pathLen + 2 * shapeLen
            \<longrightarrow> packedLength result' \<noteq> length (specLayout lib st' result'))"
proof -
  define P where "P = writeSlots array (defaultValue startingIndex 0) (specLayout lib st value)"
  define R where "R =
    result\<lparr>priv_positions := priv_positions value,
           priv_shape := priv_shape value,
           priv_cornerType := priv_cornerType value,
           priv_granularity := priv_granularity value\<rparr>"
  define S where "S =
    st\<lparr>ellipsoids := (ellipsoids st)
          (scratchEllipsoid st := ellipsoids st (priv_ellipsoid value),
           priv_ellipsoid result := ellipsoids st (priv_ellipsoid value))\<rparr>"
  have p: "pack lib st (Some value) (Some array) startingIndex = Inr P"
    by (simp add: pack_layout P_def)
  have u: "unpack lib st (Some P) startingIndex (Some result) = Inr (R, S)"
    unfolding P_def R_def S_def by (rule unpack_packed_into [OF assms])
  have fields: "priv_positions R = priv_positions value" "priv_shape R = priv_shape value"
    "priv_ellipsoid R = priv_ellipsoid result"
    "ellipsoids S (priv_ellipsoid R) = ellipsoids st (priv_ellipsoid value)"
    "priv_cornerType R = priv_cornerType value" "priv_granularity R = priv_granularity value"
    "packedLength R = packedLength result"
    by (simp_all add: R_def S_def)
  have need: "length (specLayout lib S R) =
      4 + 3 * length (priv_positions value) + 2 * length (priv_shape value)
      + Ellipsoid_packedLength lib"
    by (simp add: length_specLayout fields)
  have stale: "packedLength R \<noteq> length (specLayout lib S R)"
    if "packedLength result = 1 + pathLen * 3 + 1 + shapeLen * 2 + Ellipsoid_packedLength lib + 2"
      and "3 * length (priv_positions value) + 2 * length (priv_shape value)
              \<noteq> 3 * pathLen + 2 * shapeLen"
    using that unfolding need fields by linarith
  from p u fields stale show ?thesis
    by simp
qed

theorem unpack_into_result_witness:
  "\<exists>packed result' st'.
     pack exampleLibrary exampleStore (Some exampleDescription) (Some Map.empty) (Some 0)
       = Inr packed \<and>
     unpack exampleLibrary exampleStore (Some packed) (Some 0) (Some exampleHexagon)
       = Inr (result', st') \<and>
     priv_positions result' = [Cartesian3 0 0 0, Cartesian3 10 0 0] \<and>
     priv_shape result' = [Cartesian2 0 0, Cartesian2 0 1, Cartesian2 1 0] \<and>
     priv_ellipsoid result' = 2 \<and>
     ellipsoids st' (priv_ellipsoid result') = Cartesian3 3 2 1 \<and>
     priv_cornerType result' = 1 \<and>
     priv_granularity result' = 1 / 2 \<and>
     packedLength result' = 25 \<and>
     packedLength result' \<noteq> length (specLayout exampleLibrary st' result')"
proof -
  have "length (priv_positions exampleDescription) < 2 ^ 32"
    and "length (priv_shape exampleDescription) < 2 ^ 32"
    by (simp_all add: exampleDescription_def)
  from unpack_into_result [OF exampleLibrary_round_trip this,
      of exampleStore Map.empty "Some 0" exampleHexagon 2 6]
  show ?thesis
    by (simp add: exampleDescription_def exampleStore_def exampleHexagon_def exampleLibrary_def)
qed

text \<open>
  As stated, the claim draws this consequence whenever the decoded path length or shape
  length differs. That fails where both differ and \<open>3 * N + 2 * M\<close> does not: a result
  constructed with two path points and six shape points has \<open>packedLength\<close> 25, and after a
  description with four path points and three shape points was unpacked into it, 25 is
  still the number of slots that packing it needs.
\<close>

theorem stale_packedLength_counterexample:
  "new_PolylineVolumeOutlineGeometry exampleLibrary exampleStoreBefore (Some exampleHexagonOptions)
     = Inr (exampleHexagon, exampleStore) \<and>
   pack exampleLibrary exampleStore (Some exampleLongPath) (Some Map.empty) (Some 0)
     = Inr exampleLongPathPacked \<and>
   returned (unpack exampleLibrary exampleStore (Some exampleLongPathPacked) (Some 0)
               (Some exampleHexagon))
     = Some exampleHexagonOverwritten \<and>
   length (priv_positions exampleHexagonOverwritten) \<noteq> length (priv_positions exampleHexagon) \<and>
   length (priv_shape exampleHexagonOverwritten) \<noteq> length (priv_shape exampleHexagon) \<and>
   packedLength exampleHexagonOverwritten =
     1 + length (priv_positions exampleHexagonOverwritten) * 3
     + 1 + length (priv_shape exampleHexagonOverwritten) * 2
     + Ellipsoid_packedLength exampleLibrary + 2"
proof -
  have three: "[0..<3] = [0, 1, 2]" by code_simp
  have made: "new_PolylineVolumeOutlineGeometry exampleLibrary exampleStoreBefore
      (Some exampleHexagonOptions) = Inr (exampleHexagon, exampleStore)"
  proof -
    have "opt_polylinePositions exampleHexagonOptions = Some [Cartesian3 0 0 0, Cartesian3 0 0 10]"
      and "opt_shapePositions exampleHexagonOptions =
        Some [Cartesian2 2 0, Cartesian2 1 2, Cartesian2 (- 1) 2,
              Cartesian2 (- 2) 0, Cartesian2 (- 1) (- 2), Cartesian2 1 (- 2)]"
      by (simp_all add: exampleHexagonOptions_def)
    from construct_defined [OF this, of exampleLibrary exampleStoreBefore]
    show ?thesis
      by (auto simp: exampleHexagon_def exampleStore_def exampleStoreBefore_def
          exampleHexagonOptions_def exampleLibrary_def defaultValue_def fun_eq_iff)
  qed
  have lay: "specLayout exampleLibrary exampleStore exampleLongPath =
        [4, 0, 0, 0, 10, 0, 0, 10, 10, 0, 20, 10, 0,
         3, 0, 0, 1, 0, 0, 1,
         3, 2, 1,
         2, 1 / 4]"
    using three
    by (simp add: specLayout_def layout_def surfaceSlots_def exampleLibrary_def exampleStore_def
        exampleLongPath_def)
  have packed: "pack exampleLibrary exampleStore (Some exampleLongPath) (Some Map.empty) (Some 0)
      = Inr exampleLongPathPacked"
    by (simp add: pack_layout lay exampleLongPathPacked_def defaultValue_def)
  have "length (priv_positions exampleLongPath) < 2 ^ 32"
    and "length (priv_shape exampleLongPath) < 2 ^ 32"
    by (simp_all add: exampleLongPath_def)
  from unpack_packed_into [OF exampleLibrary_round_trip this,
      of exampleStore Map.empty "Some 0" exampleStore exampleHexagon]
  have "returned (unpack exampleLibrary exampleStore (Some exampleLongPathPacked) (Some 0)
               (Some exampleHexagon)) =
        Some (exampleHexagon\<lparr>priv_positions := priv_positions exampleLongPath,
                 priv_shape := priv_shape exampleLongPath,
                 priv_cornerType := priv_cornerType exampleLongPath,
                 priv_granularity := priv_granularity exampleLongPath\<rparr>)"
    by (simp add: lay defaultValue_def exampleLongPathPacked_def returned_def)
  then have "returned (unpack exampleLibrary exampleStore (Some exampleLongPathPacked) (Some 0)
               (Some exampleHexagon)) = Some exampleHexagonOverwritten"
    by (simp add: exampleHexagonOverwritten_def exampleHexagon_def exampleLongPath_def)
  with made packed show ?thesis
    by (simp add: exampleHexagonOverwritten_def exampleHexagon_def exampleLibrary_def)
qed

text \<open>
  Claim C10. \<open>unpack\<close> without a result object returns a description whose reference
  surface is a new object (the reference \<open>nextRef\<close> of the store before the call) holding
  the decoded value, not the module's \<open>scratchEllipsoid\<close>. A second such call therefore
  overwrites \<open>scratchEllipsoid\<close> but leaves the surface of the first description as it was.
\<close>

theorem unpack_fresh_surface:
  assumes "surfaceRoundTrip lib"
    and "moduleInvariant st"
    and "length (priv_positions value1) < 2 ^ 32"
    and "length (priv_shape value1) < 2 ^ 32"
    and "length (priv_positions value2) < 2 ^ 32"
    and "length (priv_shape value2) < 2 ^ 32"
  shows "\<exists>packed1 packed2 g1 st1 g2 st2.
           pack lib st (Some value1) (Some array1) startingIndex1 = Inr packed1 \<and>
           pack lib st (Some value2) (Some array2) startingIndex2 = Inr packed2 \<and>
           unpack lib st (Some packed1) startingIndex1 None = Inr (g1, st1) \<and>
           priv_ellipsoid g1 = nextRef st \<and>
           priv_ellipsoid g1 \<noteq> scratchEllipsoid st1 \<and>
           ellipsoids st1 (priv_ellipsoid g1) = ellipsoids st (priv_ellipsoid value1) \<and>
           unpack lib st1 (Some packed2) startingIndex2 None = Inr (g2, st2) \<and>
           ellipsoids st2 (scratchEllipsoid st2) = ellipsoids st (priv_ellipsoid value2) \<and>
           ellipsoids st2 (priv_ellipsoid g2) = ellipsoids st (priv_ellipsoid value2) \<and>
           ellipsoids st2 (priv_ellipsoid g1) = ellipsoids st (priv_ellipsoid value1)"
proof -
  define P1 where "P1 = writeSlots array1 (defaultValue startingIndex1 0) (specLayout lib st value1)"
  define P2 where "P2 = writeSlots array2 (defaultValue startingIndex2 0) (specLayout lib st value2)"
  define E1 where "E1 = ellipsoids st (priv_ellipsoid value1)"
  define E2 where "E2 = ellipsoids st (priv_ellipsoid value2)"
  define G1 where "G1 =
    \<lparr>priv_positions = priv_positions value1, priv_shape = priv_shape value1,
     priv_ellipsoid = nextRef st,
     priv_cornerType = priv_cornerType value1, priv_granularity = priv_granularity value1,
     packedLength = 1 + length (priv_positions value1) * 3
       + (1 + length (priv_shape value1) * 2) + Ellipsoid_packedLength lib + 2\<rparr>"
  define S1 where "S1 =
    st\<lparr>ellipsoids := (ellipsoids st)(scratchEllipsoid st := E1, nextRef st := E1),
       nextRef := nextRef st + 1,
       scratchOptions := (scratchOptions st)
         \<lparr>opt_polylinePositions := Some (priv_positions value1),
          opt_shapePositions := Some (priv_shape value1),
          opt_cornerType := Some (priv_cornerType value1),
          opt_granularity := Some (priv_granularity value1)\<rparr>\<rparr>"
  define G2 where "G2 =
    \<lparr>priv_positions = priv_positions value2, priv_shape = priv_shape value2,
     priv_ellipsoid = nextRef S1,
     priv_cornerType = priv_cornerType value2, priv_granularity = priv_granularity value2,
     packedLength = 1 + length (priv_positions value2) * 3
       + (1 + length (priv_shape value2) * 2) + Ellipsoid_packedLength lib + 2\<rparr>"
  define S2 where "S2 =
    S1\<lparr>ellipsoids := (ellipsoids S1)(scratchEllipsoid S1 := E2, nextRef S1 := E2),
       nextRef := nextRef S1 + 1,
       scratchOptions := (scratchOptions S1)
         \<lparr>opt_polylinePositions := Some (priv_positions value2),
          opt_shapePositions := Some (priv_shape value2),
          opt_cornerType := Some (priv_cornerType value2),
          opt_granularity := Some (priv_granularity value2)\<rparr>\<rparr>"
  have p1: "pack lib st (Some value1) (Some array1) startingIndex1 = Inr P1"
    and p2: "pack lib st (Some value2) (Some array2) startingIndex2 = Inr P2"
    by (simp_all add: pack_layout P1_def P2_def)
  have u1: "unpack lib st (Some P1) startingIndex1 None = Inr (G1, S1)"
    unfolding P1_def G1_def S1_def E1_def
    by (rule unpack_packed_fresh [OF assms(1,2,3,4)])
  have inv1: "moduleInvariant S1"
    using assms(2) by (simp add: moduleInvariant_def S1_def)
  have u2: "unpack lib S1 (Some P2) startingIndex2 None = Inr (G2, S2)"
    unfolding P2_def G2_def S2_def E2_def
    by (rule unpack_packed_fresh [OF assms(1) inv1 assms(5,6)])
  have scratch: "scratchEllipsoid st < nextRef st"
    using assms(2) by (simp add: moduleInvariant_def)
  have facts: "priv_ellipsoid G1 = nextRef st"
    "priv_ellipsoid G1 \<noteq> scratchEllipsoid S1"
    "ellipsoids S1 (priv_ellipsoid G1) = E1"
    "ellipsoids S2 (scratchEllipsoid S2) = E2"
    "ellipsoids S2 (priv_ellipsoid G2) = E2"
    "ellipsoids S2 (priv_ellipsoid G1) = E1"
    using scratch by (simp_all add: G1_def S1_def G2_def S2_def)
  from p1 p2 u1 u2 facts show ?thesis
    by (simp add: E1_def E2_def)
qed

theorem unpack_fresh_surface_witness:
  "\<exists>packed1 packed2 g1 st1 g2 st2.
     pack exampleLibrary exampleStore (Some exampleDescription) (Some Map.empty) (Some 0)
       = Inr packed1 \<and>
     pack exampleLibrary exampleStore (Some exampleHexagon) (Some Map.empty) (Some 0)
       = Inr packed2 \<and>
     unpack exampleLibrary exampleStore (Some packed1) (Some 0) None = Inr (g1, st1) \<and>
     priv_ellipsoid g1 = 3 \<and>
     priv_ellipsoid g1 \<noteq> scratchEllipsoid st1 \<and>
     ellipsoids st1 (priv_ellipsoid g1) = Cartesian3 3 2 1 \<and>
     unpack exampleLibrary st1 (Some packed2) (Some 0) None = Inr (g2, st2) \<and>
     ellipsoids st2 (scratchEllipsoid st2) = Cartesian3 6378137 6378137 6356752 \<and>
     ellipsoids st2 (priv_ellipsoid g2) = Cartesian3 6378137 6378137 6356752 \<and>
     ellipsoids st2 (priv_ellipsoid g1) = Cartesian3 3 2 1"
proof -
  have "length (priv_positions exampleDescription) < 2 ^ 32"
    and "length (priv_shape exampleDescription) < 2 ^ 32"
    and "length (priv_positions exampleHexagon) < 2 ^ 32"
    and "length (priv_shape exampleHexagon) < 2 ^ 32"
    by (simp_all add: exampleDescription_def exampleHexagon_def)
  from unpack_fresh_surface [OF exampleLibrary_round_trip exampleStore_invariant this,
      of Map.empty "Some 0" Map.empty "Some 0"]
  show ?thesis
    by (simp add: exampleDescription_def exampleHexagon_def exampleStore_def)
qed

section \<open>Claims on \<open>createGeometry\<close>\<close>

text \<open>
  Claim C5. Let the path keep at least two points and the shape at least three after
  duplicate removal, and let \<open>fixedShape\<close> be the reversed shape when the signed area of
  the shape is negative (clockwise), and the shape itself when it is positive
  (counter-clockwise). Then \<open>fixedShape\<close> has a positive signed area, and it is
  \<open>fixedShape\<close> that \<open>createGeometry\<close> hands on: the bounding rectangle is that of
  \<open>fixedShape\<close>, the sweeper \<open>computePositions\<close> is called with \<open>fixedShape\<close> and this
  rectangle, the topology builder \<open>computeAttributes\<close> is called with the swept positions
  and \<open>fixedShape\<close>, and its geometry is what \<open>createGeometry\<close> returns. The signed area is
  that of the specification's shoelace formula over the reals.
\<close>

theorem winding_normalization:
  assumes "cleanPositions =
             removeDuplicatesFromPositions ext (priv_positions g) (ellipsoids st (priv_ellipsoid g))"
    and "shape2D = removeDuplicatesFromShape ext (priv_shape g)"
    and "2 \<le> length cleanPositions"
    and "3 \<le> length shape2D"
    and "computeArea2D shape2D < 0 \<and> fixedShape = rev shape2D \<or>
         0 < computeArea2D shape2D \<and> fixedShape = shape2D"
  shows "0 < computeArea2D fixedShape \<and>
         (\<exists>geometry.
            computeAttributes (BoundingSphere_fromVertices ext)
              (computePositions ext cleanPositions fixedShape
                 (BoundingRectangle_fromPoints ext fixedShape) g
                 (ellipsoids st (priv_ellipsoid g)) False)
              fixedShape = Inr geometry \<and>
            createGeometry ext st g = Inr (geometry, BoundingRectangle_fromPoints ext fixedShape))"
proof -
  from assms(5) have fixed: "windingFix shape2D = fixedShape"
    and ccw: "0 < computeArea2D fixedShape"
    by (auto simp: windingFix_def computeWindingOrder2D_def computeArea2D_rev)
  from assms(4,5) have "fixedShape \<noteq> []" by auto
  then obtain geometry where geometry:
    "computeAttributes (BoundingSphere_fromVertices ext)
       (computePositions ext cleanPositions fixedShape
          (BoundingRectangle_fromPoints ext fixedShape) g
          (ellipsoids st (priv_ellipsoid g)) False)
       fixedShape = Inr geometry"
    using computeAttributes_returns by blast
  from assms(1-4) have "createGeometry ext st g =
      sweepOutline ext st g cleanPositions (windingFix shape2D)"
    by (simp add: createGeometry_def Let_def)
  with geometry have "createGeometry ext st g =
      Inr (geometry, BoundingRectangle_fromPoints ext fixedShape)"
    by (simp add: sweepOutline_def Let_def fixed)
  with ccw geometry show ?thesis by blast
qed

theorem winding_normalization_witness:
  "0 < computeArea2D [Cartesian2 1 0, Cartesian2 0 1, Cartesian2 0 0] \<and>
   (\<exists>geometry.
      computeAttributes (BoundingSphere_fromVertices exampleCollaborators)
        (computePositions exampleCollaborators [Cartesian3 0 0 0, Cartesian3 10 0 0]
           [Cartesian2 1 0, Cartesian2 0 1, Cartesian2 0 0]
           (BoundingRectangle_fromPoints exampleCollaborators
              [Cartesian2 1 0, Cartesian2 0 1, Cartesian2 0 0])
           exampleDescription
           (ellipsoids exampleStore (priv_ellipsoid exampleDescription)) False)
        [Cartesian2 1 0, Cartesian2 0 1, Cartesian2 0 0] = Inr geometry \<and>
      createGeometry exampleCollaborators exampleStore exampleDescription =
        Inr (geometry, BoundingRectangle_fromPoints exampleCollaborators
               [Cartesian2 1 0, Cartesian2 0 1, Cartesian2 0 0])) \<and>
   0 < computeArea2D [Cartesian2 0 0, Cartesian2 1 0, Cartesian2 0 1] \<and>
   (\<exists>geometry.
      computeAttributes (BoundingSphere_fromVertices exampleCollaborators)
        (computePositions exampleCollaborators
           [Cartesian3 0 0 0, Cartesian3 10 0 0, Cartesian3 10 10 0, Cartesian3 20 10 0]
           [Cartesian2 0 0, Cartesian2 1 0, Cartesian2 0 1]
           (BoundingRectangle_fromPoints exampleCollaborators
              [Cartesian2 0 0, Cartesian2 1 0, Cartesian2 0 1])
           exampleLongPath
           (ellipsoids exampleStore (priv_ellipsoid exampleLongPath)) False)
        [Cartesian2 0 0, Cartesian2 1 0, Cartesian2 0 1] = Inr geometry \<and>
      createGeometry exampleCollaborators exampleStore exampleLongPath =
        Inr (geometry, BoundingRectangle_fromPoints exampleCollaborators
               [Cartesian2 0 0, Cartesian2 1 0, Cartesian2 0 1]))"
proof -
  have "[Cartesian3 0 0 0, Cartesian3 10 0 0] =
          removeDuplicatesFromPositions exampleCollaborators (priv_positions exampleDescription)
            (ellipsoids exampleStore (priv_ellipsoid exampleDescription))"
    and "[Cartesian2 0 0, Cartesian2 0 1, Cartesian2 1 0] =
          removeDuplicatesFromShape exampleCollaborators (priv_shape exampleDescription)"
    and "2 \<le> length [Cartesian3 0 0 0, Cartesian3 10 0 0]"
    and "3 \<le> length [Cartesian2 0 0, Cartesian2 0 1, Cartesian2 1 0]"
    and "computeArea2D [Cartesian2 0 0, Cartesian2 0 1, Cartesian2 1 0] < 0 \<and>
           [Cartesian2 1 0, Cartesian2 0 1, Cartesian2 0 0] =
             rev [Cartesian2 0 0, Cartesian2 0 1, Cartesian2 1 0] \<or>
         0 < computeArea2D [Cartesian2 0 0, Cartesian2 0 1, Cartesian2 1 0] \<and>
           [Cartesian2 1 0, Cartesian2 0 1, Cartesian2 0 0] =
             [Cartesian2 0 0, Cartesian2 0 1, Cartesian2 1 0]"
    by (simp_all add: exampleCollaborators_def exampleDescription_def computeArea2D_def)
  note clockwise = winding_normalization [OF this]
  have "[Cartesian3 0 0 0, Cartesian3 10 0 0, Cartesian3 10 10 0, Cartesian3 20 10 0] =
          removeDuplicatesFromPositions exampleCollaborators (priv_positions exampleLongPath)
            (ellipsoids exampleStore (priv_ellipsoid exampleLongPath))"
    and "[Cartesian2 0 0, Cartesian2 1 0, Cartesian2 0 1] =
          removeDuplicatesFromShape exampleCollaborators (priv_shape exampleLongPath)"
    and "2 \<le> length [Cartesian3 0 0 0, Cartesian3 10 0 0, Cartesian3 10 10 0, Cartesian3 20 10 0]"
    and "3 \<le> length [Cartesian2 0 0, Cartesian2 1 0, Cartesian2 0 1]"
    and "computeArea2D [Cartesian2 0 0, Cartesian2 1 0, Cartesian2 0 1] < 0 \<and>
           [Cartesian2 0 0, Cartesian2 1 0, Cartesian2 0 1] =
             rev [Cartesian2 0 0, Cartesian2 1 0, Cartesian2 0 1] \<or>
         0 < computeArea2D [Cartesian2 0 0, Cartesian2 1 0, Cartesian2 0 1] \<and>
           [Cartesian2 0 0, Cartesian2 1 0, Cartesian2 0 1] =
             [Cartesian2 0 0, Cartesian2 1 0, Cartesian2 0 1]"
    by (simp_all add: exampleCollaborators_def exampleLongPath_def computeArea2D_def)
  note counterClockwise = winding_normalization [OF this]
  from clockwise counterClockwise show ?thesis
    by (intro conjI) (erule conjunct1 conjunct2)+
qed

text \<open>
  Claim C6. \<open>createGeometry\<close> fails exactly when, after duplicate removal, the path has fewer
  than two points or the shape has fewer than three; the failure is a \<open>DeveloperError\<close> and
  comes without a geometry. In particular it fails for a path that is left with a single
  point and for a shape that is left with two points or fewer. (The source places the two
  checks between debug pragmas; the model is of the source as it is written.)
\<close>

theorem precondition_enforcement:
  assumes "cleanPositions =
             removeDuplicatesFromPositions ext (priv_positions g) (ellipsoids st (priv_ellipsoid g))"
    and "shape2D = removeDuplicatesFromShape ext (priv_shape g)"
  shows "((\<exists>e. createGeometry ext st g = Inl e) \<longleftrightarrow>
            length cleanPositions < 2 \<or> length shape2D < 3) \<and>
         (\<forall>e. createGeometry ext st g = Inl e \<longrightarrow> (\<exists>message. e = DeveloperError message)) \<and>
         (length cleanPositions = 1 \<longrightarrow> (\<exists>e. createGeometry ext st g = Inl e)) \<and>
         (length shape2D \<le> 2 \<longrightarrow> (\<exists>e. createGeometry ext st g = Inl e))"
proof (cases "length cleanPositions < 2 \<or> length shape2D < 3")
  case True
  with assms show ?thesis
    by (auto simp: createGeometry_def Let_def)
next
  case False
  then have "shape2D \<noteq> []" by auto
  then have "windingFix shape2D \<noteq> []" by simp
  from sweepOutline_returns [OF this] obtain r where
    "sweepOutline ext st g cleanPositions (windingFix shape2D) = Inr r"
    by blast
  with False assms have "createGeometry ext st g = Inr r"
    by (simp add: createGeometry_def Let_def)
  with False show ?thesis by auto
qed

theorem precondition_enforcement_witness:
  "(\<exists>e. createGeometry exampleCollaborators exampleStore
          (exampleDescription\<lparr>priv_positions := [Cartesian3 5 5 5, Cartesian3 5 5 5]\<rparr>) = Inl e) \<and>
   (\<exists>e. createGeometry exampleCollaborators exampleStore
          (exampleDescription\<lparr>priv_shape := [Cartesian2 0 0, Cartesian2 0 0, Cartesian2 1 0]\<rparr>)
          = Inl e) \<and>
   \<not> (\<exists>e. createGeometry exampleCollaborators exampleStore exampleDescription = Inl e)"
proof -
  have "[Cartesian3 5 5 5] =
          removeDuplicatesFromPositions exampleCollaborators
            (priv_positions (exampleDescription\<lparr>priv_positions := [Cartesian3 5 5 5, Cartesian3 5 5 5]\<rparr>))
            (ellipsoids exampleStore
              (priv_ellipsoid (exampleDescription\<lparr>priv_positions := [Cartesian3 5 5 5, Cartesian3 5 5 5]\<rparr>)))"
    and "[Cartesian2 0 0, Cartesian2 0 1, Cartesian2 1 0] =
          removeDuplicatesFromShape exampleCollaborators
            (priv_shape (exampleDescription\<lparr>priv_positions := [Cartesian3 5 5 5, Cartesian3 5 5 5]\<rparr>))"
    by (simp_all add: exampleCollaborators_def exampleDescription_def)
  note path = precondition_enforcement [OF this]
  have "[Cartesian3 0 0 0, Cartesian3 10 0 0] =
          removeDuplicatesFromPositions exampleCollaborators
            (priv_positions (exampleDescription\<lparr>priv_shape := [Cartesian2 0 0, Cartesian2 0 0, Cartesian2 1 0]\<rparr>))
            (ellipsoids exampleStore
              (priv_ellipsoid (exampleDescription\<lparr>priv_shape := [Cartesian2 0 0, Cartesian2 0 0, Cartesian2 1 0]\<rparr>)))"
    and "[Cartesian2 0 0, Cartesian2 1 0] =
          removeDuplicatesFromShape exampleCollaborators
            (priv_shape (exampleDescription\<lparr>priv_shape := [Cartesian2 0 0, Cartesian2 0 0, Cartesian2 1 0]\<rparr>))"
    by (simp_all add: exampleCollaborators_def exampleDescription_def)
  note shape = precondition_enforcement [OF this]
  have "[Cartesian3 0 0 0, Cartesian3 10 0 0] =
          removeDuplicatesFromPositions exampleCollaborators (priv_positions exampleDescription)
            (ellipsoids exampleStore (priv_ellipsoid exampleDescription))"
    and "[Cartesian2 0 0, Cartesian2 0 1, Cartesian2 1 0] =
          removeDuplicatesFromShape exampleCollaborators (priv_shape exampleDescription)"
    by (simp_all add: exampleCollaborators_def exampleDescription_def)
  note valid = precondition_enforcement [OF this]
  from path shape valid show ?thesis
    by simp
qed


end
